theory Spec2Isabelle
  imports Complex_Main "HOL-Library.AList"
begin

section \<open>Python values and built-ins used by the handlers\<close>

text \<open>
  The handlers are Python Lambda functions working on loosely typed dictionaries.
  A DynamoDB item is a dictionary from attribute names to values; boto3 hands numbers
  back as \<^verbatim>\<open>Decimal\<close>, the gateway hands the rate limit back as a float. All numbers
  are modelled as rationals (\<open>PNum\<close>); NaN and the infinities are left out.
  Exceptions are values of type \<open>pyerr\<close>, and a computation that may raise returns
  \<open>pyerr + 'a\<close>.
\<close>

datatype pyerr =
    TypeError
  | ValueError
  | KeyError string
  | IndexError
  | ClientError string

datatype pyval =
    PNone
  | PBool bool
  | PNum rat
  | PStr string
  | PList "pyval list"

type_synonym item = "(string \<times> pyval) list"

text \<open>\<^verbatim>\<open>d.get(k, dflt)\<close>, \<^verbatim>\<open>d[k]\<close> and \<^verbatim>\<open>k in d\<close> on a dictionary.\<close>

definition dict_get :: "item \<Rightarrow> string \<Rightarrow> pyval \<Rightarrow> pyval" where
  "dict_get d k dflt = (case map_of d k of None \<Rightarrow> dflt | Some v \<Rightarrow> v)"

definition dict_index :: "item \<Rightarrow> string \<Rightarrow> pyerr + pyval" where
  "dict_index d k = (case map_of d k of None \<Rightarrow> Inl (KeyError k) | Some v \<Rightarrow> Inr v)"

definition dict_has :: "item \<Rightarrow> string \<Rightarrow> bool" where
  "dict_has d k = (map_of d k \<noteq> None)"

text \<open>Truth value of an object, as \<^verbatim>\<open>if x:\<close> and \<^verbatim>\<open>not x\<close> read it.\<close>

fun py_truthy :: "pyval \<Rightarrow> bool" where
  "py_truthy PNone = False"
| "py_truthy (PBool b) = b"
| "py_truthy (PNum q) = (q \<noteq> 0)"
| "py_truthy (PStr s) = (s \<noteq> [])"
| "py_truthy (PList xs) = (xs \<noteq> [])"

subsection \<open>\<^verbatim>\<open>int()\<close> and \<^verbatim>\<open>float()\<close>\<close>

text \<open>
  \<^verbatim>\<open>int(x)\<close> truncates a number towards zero, reads a string as a decimal literal
  (surrounding white space, one sign, single underscores between digits) and raises on
  everything else. Characters are bytes here, so digits and spaces outside ASCII are not
  covered.
\<close>

definition py_trunc :: "rat \<Rightarrow> int" where
  "py_trunc q = (if q < 0 then \<lceil>q\<rceil> else \<lfloor>q\<rfloor>)"

definition is_space :: "char \<Rightarrow> bool" where
  "is_space c = (c \<in> set [CHR '' '', CHR 0x09, CHR 0x0A, CHR 0x0B, CHR 0x0C, CHR 0x0D,
                           CHR 0x1C, CHR 0x1D, CHR 0x1E, CHR 0x1F])"

definition strip :: "string \<Rightarrow> string" where
  "strip s = rev (dropWhile is_space (rev (dropWhile is_space s)))"

definition digit_val :: "char \<Rightarrow> nat option" where
  "digit_val c = (if c \<in> set ''0123456789'' then Some (of_char c - 48) else None)"

fun parse_digits :: "nat \<Rightarrow> string \<Rightarrow> nat option" where
  "parse_digits acc [] = Some acc"
| "parse_digits acc [c] =
     (case digit_val c of None \<Rightarrow> None | Some v \<Rightarrow> Some (10 * acc + v))"
| "parse_digits acc (c # d # ds) =
     (if c = CHR ''_'' then
        (case digit_val d of None \<Rightarrow> None | Some v \<Rightarrow> parse_digits (10 * acc + v) ds)
      else
        (case digit_val c of None \<Rightarrow> None | Some v \<Rightarrow> parse_digits (10 * acc + v) (d # ds)))"

definition parse_nat :: "string \<Rightarrow> nat option" where
  "parse_nat s =
     (case s of
        [] \<Rightarrow> None
      | c # cs \<Rightarrow> (case digit_val c of None \<Rightarrow> None | Some v \<Rightarrow> parse_digits v cs))"

definition int_of_str :: "string \<Rightarrow> int option" where
  "int_of_str s =
     (case strip s of
        [] \<Rightarrow> None
      | c # cs \<Rightarrow>
          if c = CHR ''-'' then map_option (\<lambda>n. - int n) (parse_nat cs)
          else if c = CHR ''+'' then map_option int (parse_nat cs)
          else map_option int (parse_nat (c # cs)))"

fun py_int :: "pyval \<Rightarrow> pyerr + int" where
  "py_int PNone = Inl TypeError"
| "py_int (PBool b) = Inr (if b then 1 else 0)"
| "py_int (PNum q) = Inr (py_trunc q)"
| "py_int (PStr s) = (case int_of_str s of None \<Rightarrow> Inl ValueError | Some n \<Rightarrow> Inr n)"
| "py_int (PList xs) = Inl TypeError"

text \<open>
  \<^verbatim>\<open>float(x)\<close>: numbers are kept exactly; of the string literals only the integer ones
  are read (a fraction or an exponent raises here), which no property below depends on.
\<close>

fun py_float :: "pyval \<Rightarrow> pyerr + rat" where
  "py_float PNone = Inl TypeError"
| "py_float (PBool b) = Inr (if b then 1 else 0)"
| "py_float (PNum q) = Inr q"
| "py_float (PStr s) = (case int_of_str s of None \<Rightarrow> Inl ValueError | Some n \<Rightarrow> Inr (of_int n))"
| "py_float (PList xs) = Inl TypeError"

subsection \<open>Strings\<close>

text \<open>\<^verbatim>\<open>s.split('/')\<close>: the pieces between the separators, at least one piece.\<close>

fun split_on :: "char \<Rightarrow> string \<Rightarrow> string list" where
  "split_on sep [] = [[]]"
| "split_on sep (c # cs) =
     (if c = sep then [] # split_on sep cs
      else (case split_on sep cs of
              [] \<Rightarrow> [[c]]
            | p # ps \<Rightarrow> (c # p) # ps))"

text \<open>\<^verbatim>\<open>xs[i]\<close> for a list: negative indices count from the end, out of range raises.\<close>

definition py_nth :: "'a list \<Rightarrow> int \<Rightarrow> pyerr + 'a" where
  "py_nth xs i =
     (if 0 \<le> i \<and> i < int (length xs) then Inr (xs ! nat i)
      else if i < 0 \<and> - int (length xs) \<le> i then Inr (xs ! nat (int (length xs) + i))
      else Inl IndexError)"

text \<open>\<^verbatim>\<open>xs[:k]\<close>: a negative bound counts from the end.\<close>

definition py_slice_to :: "int \<Rightarrow> 'a list \<Rightarrow> 'a list" where
  "py_slice_to k xs = (if k < 0 then take (nat (int (length xs) + k)) xs else take (nat k) xs)"

text \<open>\<^verbatim>\<open>str(n)\<close> for a count.\<close>

definition digit_chr :: "nat \<Rightarrow> char" where
  "digit_chr n = char_of (48 + n)"

function str_nat :: "nat \<Rightarrow> string" where
  "str_nat n = (if n < 10 then [digit_chr n] else str_nat (n div 10) @ [digit_chr (n mod 10)])"
  by pat_completeness auto
termination
  by (relation "measure id") auto

declare str_nat.simps [simp del]

section \<open>config\_compliance: annotation and configuration comparison\<close>

text \<open>
  \<^verbatim>\<open>
  def truncate_annotation(annotation, max_length=256):
      if len(annotation) <= max_length:
          return annotation
      return annotation[:max_length-3] + '...'
  \<close>
\<close>

definition truncate_annotation_to :: "int \<Rightarrow> string \<Rightarrow> string" where
  "truncate_annotation_to max_length annotation =
     (if int (length annotation) \<le> max_length then annotation
      else py_slice_to (max_length - 3) annotation @ ''...'')"

definition truncate_annotation :: "string \<Rightarrow> string" where
  "truncate_annotation annotation = truncate_annotation_to 256 annotation"

text \<open>
  A usage plan as the gateway returns it. \<open>throttle\<close> and \<open>quota\<close> are present only
  when configured, and so are their members; \<open>id\<close> and \<open>name\<close> are always there.
\<close>

record throttle =
  rateLimit :: "rat option"
  burstLimit :: "int option"

record quota =
  limit :: "int option"
  period :: "string option"

record api_stage =
  apiId :: string
  stage :: string

record api_plan =
  ap_id :: string
  ap_name :: string
  ap_description :: "string option"
  ap_throttle :: "throttle option"
  ap_quota :: "quota option"
  ap_apiStages :: "api_stage list option"

text \<open>
  \<^verbatim>\<open>int(api_plan.get('throttle', {}).get('rateLimit', 0))\<close> and its two siblings.
\<close>

definition api_rate :: "api_plan \<Rightarrow> int" where
  "api_rate p =
     (case ap_throttle p of
        None \<Rightarrow> 0
      | Some t \<Rightarrow> (case rateLimit t of None \<Rightarrow> 0 | Some q \<Rightarrow> py_trunc q))"

definition api_burst :: "api_plan \<Rightarrow> int" where
  "api_burst p =
     (case ap_throttle p of
        None \<Rightarrow> 0
      | Some t \<Rightarrow> (case burstLimit t of None \<Rightarrow> 0 | Some n \<Rightarrow> n))"

definition api_quota_limit :: "api_plan \<Rightarrow> int" where
  "api_quota_limit p =
     (case ap_quota p of
        None \<Rightarrow> 0
      | Some q \<Rightarrow> (case limit q of None \<Rightarrow> 0 | Some n \<Rightarrow> n))"

text \<open>
  The three-way comparison that \<^verbatim>\<open>plans_match_by_config\<close>, \<^verbatim>\<open>find_api_gateway_usage_plan_id\<close>
  and the table scan of \<^verbatim>\<open>evaluate_resource_compliance\<close> all spell out:
  \<^verbatim>\<open>
  (int(db_plan.get('rate_limit', 0)) == int(api_throttle.get('rateLimit', 0)) and
   int(db_plan.get('burst_limit', 0)) == int(api_throttle.get('burstLimit', 0)) and
   int(db_plan.get('quota_limit', 0)) == int(api_quota.get('limit', 0)))
  \<close>
  \<^verbatim>\<open>and\<close> stops at the first unequal pair, so a later \<^verbatim>\<open>int()\<close> is not reached.
\<close>

definition config_triple_eq :: "item \<Rightarrow> api_plan \<Rightarrow> pyerr + bool" where
  "config_triple_eq db_plan p =
     (case py_int (dict_get db_plan ''rate_limit'' (PNum 0)) of
        Inl e \<Rightarrow> Inl e
      | Inr r \<Rightarrow>
          if r \<noteq> api_rate p then Inr False
          else (case py_int (dict_get db_plan ''burst_limit'' (PNum 0)) of
                  Inl e \<Rightarrow> Inl e
                | Inr b \<Rightarrow>
                    if b \<noteq> api_burst p then Inr False
                    else (case py_int (dict_get db_plan ''quota_limit'' (PNum 0)) of
                            Inl e \<Rightarrow> Inl e
                          | Inr q \<Rightarrow> Inr (q = api_quota_limit p))))"

text \<open>
  \<^verbatim>\<open>
  def plans_match_by_config(db_plan, api_plan):
      try:
          ...
          return (<the comparison above>)
      except Exception:
          return False
  \<close>
\<close>

definition plans_match_by_config :: "item \<Rightarrow> api_plan \<Rightarrow> bool" where
  "plans_match_by_config db_plan p =
     (case config_triple_eq db_plan p of Inl e \<Rightarrow> False | Inr b \<Rightarrow> b)"

text \<open>
  A mismatch found by the drift detector. The source appends a message text built from
  the two values (or from the number of unmatched stages); the entry keeps the attribute
  and these parts.
\<close>

datatype violation =
    RateLimitViolation "pyval option" "rat option"
  | BurstLimitViolation "pyval option" "int option"
  | QuotaLimitViolation "pyval option" "int option"
  | StagesNotInDB nat
  | StagesNotInAPI nat

definition api_rate_raw :: "api_plan \<Rightarrow> rat option" where
  "api_rate_raw p = (case ap_throttle p of None \<Rightarrow> None | Some t \<Rightarrow> rateLimit t)"

definition api_burst_raw :: "api_plan \<Rightarrow> int option" where
  "api_burst_raw p = (case ap_throttle p of None \<Rightarrow> None | Some t \<Rightarrow> burstLimit t)"

definition api_quota_raw :: "api_plan \<Rightarrow> int option" where
  "api_quota_raw p = (case ap_quota p of None \<Rightarrow> None | Some q \<Rightarrow> limit q)"

text \<open>
  \<^verbatim>\<open>os.environ.get('AWS_REGION', 'us-east-1')\<close> and the stage ARN built from it:
  \<^verbatim>\<open>f"arn:aws:apigateway:{region}::/restapis/{api_id}/stages/{stage_name}"\<close>.
\<close>

definition region_or_default :: "string option \<Rightarrow> string" where
  "region_or_default r = (case r of None \<Rightarrow> ''us-east-1'' | Some s \<Rightarrow> s)"

definition stage_arn_of :: "string option \<Rightarrow> api_stage \<Rightarrow> string" where
  "stage_arn_of r s =
     ''arn:aws:apigateway:'' @ region_or_default r @ ''::/restapis/'' @ apiId s
       @ ''/stages/'' @ stage s"

definition api_stages_arns :: "string option \<Rightarrow> api_plan \<Rightarrow> string list" where
  "api_stages_arns r p =
     (case ap_apiStages p of None \<Rightarrow> [] | Some ss \<Rightarrow> map (stage_arn_of r) ss)"

text \<open>
  \<^verbatim>\<open>set(db_stages) if db_stages else set()\<close>: the elements of a list (which must be
  hashable), the characters of a string; a number or \<^verbatim>\<open>True\<close> cannot be iterated.
  A set is kept as the list of its elements and compared through \<open>set\<close>.
\<close>

fun hashable :: "pyval \<Rightarrow> bool" where
  "hashable (PList xs) = False"
| "hashable v = True"

definition db_stages_set :: "pyval \<Rightarrow> pyerr + pyval list" where
  "db_stages_set v =
     (if \<not> py_truthy v then Inr []
      else (case v of
              PList xs \<Rightarrow> if list_all hashable xs then Inr xs else Inl TypeError
            | PStr s \<Rightarrow> Inr (map (\<lambda>c. PStr [c]) s)
            | _ \<Rightarrow> Inl TypeError))"

text \<open>\<^verbatim>\<open>len(a - b)\<close> for two sets.\<close>

definition missing_count :: "'a list \<Rightarrow> 'a list \<Rightarrow> nat" where
  "missing_count a b = length (remdups (filter (\<lambda>x. x \<notin> set b) a))"

text \<open>
  \<^verbatim>\<open>
  def validate_plan_configuration(db_plan, api_plan):
      violations = []
      api_throttle = api_plan.get('throttle', {})
      if int(db_plan.get('rate_limit', 0)) != int(api_throttle.get('rateLimit', 0)):
          violations.append(f"Rate limit: DB=... vs API=...")
      if int(db_plan.get('burst_limit', 0)) != int(api_throttle.get('burstLimit', 0)):
          violations.append(...)
      api_quota = api_plan.get('quota', {})
      if int(db_plan.get('quota_limit', 0)) != int(api_quota.get('limit', 0)):
          violations.append(...)
      api_stages_arns = [<arn of stage> for stage in api_plan.get('apiStages', [])]
      db_stages = db_plan.get('stages', [])
      db_stages_set = set(db_stages) if db_stages else set()
      api_stages_set = set(api_stages_arns)
      if not api_stages_set.issubset(db_stages_set):
          violations.append(f"Stages in API Gateway not in DB: {len(api - db)} stages")
      if not db_stages_set.issubset(api_stages_set):
          violations.append(f"Stages in DB not in API Gateway: {len(db - api)} stages")
      return violations
  \<close>
  None of the \<^verbatim>\<open>int()\<close> calls is guarded here: a value that cannot be coerced raises.
\<close>

definition stage_violations :: "pyval list \<Rightarrow> pyval list \<Rightarrow> violation list" where
  "stage_violations db_set api_set =
     (if \<not> set api_set \<subseteq> set db_set then [StagesNotInDB (missing_count api_set db_set)] else [])
     @ (if \<not> set db_set \<subseteq> set api_set then [StagesNotInAPI (missing_count db_set api_set)] else [])"

definition validate_plan_configuration ::
  "string option \<Rightarrow> item \<Rightarrow> api_plan \<Rightarrow> pyerr + violation list" where
  "validate_plan_configuration r db_plan p =
     (case py_int (dict_get db_plan ''rate_limit'' (PNum 0)) of
        Inl e \<Rightarrow> Inl e
      | Inr rate \<Rightarrow>
     (case py_int (dict_get db_plan ''burst_limit'' (PNum 0)) of
        Inl e \<Rightarrow> Inl e
      | Inr burst \<Rightarrow>
     (case py_int (dict_get db_plan ''quota_limit'' (PNum 0)) of
        Inl e \<Rightarrow> Inl e
      | Inr quota \<Rightarrow>
     (case db_stages_set (dict_get db_plan ''stages'' (PList [])) of
        Inl e \<Rightarrow> Inl e
      | Inr db_set \<Rightarrow>
          Inr ((if rate \<noteq> api_rate p
                then [RateLimitViolation (map_of db_plan ''rate_limit'') (api_rate_raw p)] else [])
             @ (if burst \<noteq> api_burst p
                then [BurstLimitViolation (map_of db_plan ''burst_limit'') (api_burst_raw p)] else [])
             @ (if quota \<noteq> api_quota_limit p
                then [QuotaLimitViolation (map_of db_plan ''quota_limit'') (api_quota_raw p)] else [])
             @ stage_violations db_set (map PStr (api_stages_arns r p)))))))"

section \<open>The two stores and the notification topic\<close>

text \<open>
  The handlers talk to three services through boto3: the DynamoDB table of governance
  records, the API Gateway usage plans, and an SNS topic (the Config rule also reports
  to AWS Config). The services are not part of the repository. They are modelled as a
  state that every call reads or updates; what a call does to that state follows the
  services' documented behaviour and is kept as small as the handlers need.

  Every call can fail for reasons outside the handler (throttling, network, missing
  permission, a request the service rejects). \<open>faults\<close> says which calls do, counted in
  the order they are issued (\<open>step\<close>); \<open>calls\<close> records every write and notification a
  handler attempts, with its outcome.
\<close>

datatype compliance_type = COMPLIANT | NON_COMPLIANT | NOT_APPLICABLE

record evaluation =
  ComplianceResourceType :: string
  ComplianceResourceId :: string
  ComplianceType :: compliance_type
  Annotation :: string
  OrderingTimestamp :: string

text \<open>
  A patch operation \<^verbatim>\<open>{'op': 'replace', 'path': p, 'value': str(n)}\<close> or
  \<^verbatim>\<open>{'op': 'add', 'path': p, 'value': v}\<close>. The number of a replacement is kept
  as the number, not as its decimal text.
\<close>

datatype patch_op = Replace string int | Add string string

record create_params =
  cp_name :: pyval
  cp_throttle :: "(rat \<times> int) option"
  cp_quota :: "(int \<times> pyval) option"

datatype drift = RateDrift rat int | BurstDrift int int | QuotaDrift int int

datatype notification =
    UsagePlanDeleted string "string option"
  | DriftCorrected string "drift list"
  | CorrectionFailed string pyerr

datatype call =
    CreateUsagePlan create_params
  | UpdateUsagePlan string "patch_op list"
  | DeleteUsagePlan string
  | PutItem item
  | UpdateItem string item
  | Publish notification
  | PutEvaluations "evaluation list"

record world =
  table :: "item list"
  plans :: "api_plan list"
  live_stages :: "(string \<times> string) list"
  fresh_ids :: "string list"
  now :: string
  aws_region :: "string option"
  faults :: "nat \<Rightarrow> bool"
  step :: nat
  calls :: "(call \<times> bool) list"

definition tick :: "world \<Rightarrow> bool \<times> world" where
  "tick w = (faults w (step w), w\<lparr>step := Suc (step w)\<rparr>)"

definition logged :: "call \<Rightarrow> bool \<Rightarrow> world \<Rightarrow> world" where
  "logged c ok w = w\<lparr>calls := calls w @ [(c, ok)]\<rparr>"

definition service_error :: pyerr where
  "service_error = ClientError ''ServiceUnavailable''"

subsection \<open>The table of governance records\<close>

text \<open>
  The table's key is the string attribute \<^verbatim>\<open>plan_id\<close>. \<^verbatim>\<open>get_item\<close> answers with or
  without an \<^verbatim>\<open>Item\<close>; \<^verbatim>\<open>put_item\<close> replaces the item of the same key;
  \<^verbatim>\<open>update_item\<close> with a \<^verbatim>\<open>SET\<close> expression and no condition assigns the attributes
  and creates the item when it is missing.
\<close>

definition key_of :: "item \<Rightarrow> string option" where
  "key_of it = (case map_of it ''plan_id'' of Some (PStr k) \<Rightarrow> Some k | _ \<Rightarrow> None)"

definition lookup_item :: "string \<Rightarrow> item list \<Rightarrow> item option" where
  "lookup_item k tbl = find (\<lambda>it. key_of it = Some k) tbl"

fun store_item :: "string \<Rightarrow> item \<Rightarrow> item list \<Rightarrow> item list" where
  "store_item k it [] = [it]"
| "store_item k it (x # xs) = (if key_of x = Some k then it # xs else x # store_item k it xs)"

definition assign_all :: "item \<Rightarrow> item \<Rightarrow> item" where
  "assign_all sets it = fold (\<lambda>(a, v) d. AList.update a v d) sets it"

definition get_item :: "string \<Rightarrow> world \<Rightarrow> (pyerr + item option) \<times> world" where
  "get_item k w =
     (let (bad, w1) = tick w in
      if bad then (Inl service_error, w1) else (Inr (lookup_item k (table w1)), w1))"

definition scan :: "world \<Rightarrow> (pyerr + item list) \<times> world" where
  "scan w =
     (let (bad, w1) = tick w in
      if bad then (Inl service_error, w1) else (Inr (table w1), w1))"

definition put_item :: "item \<Rightarrow> world \<Rightarrow> (pyerr + unit) \<times> world" where
  "put_item it w =
     (let (bad, w1) = tick w in
      if bad then (Inl service_error, logged (PutItem it) False w1)
      else (case key_of it of
              None \<Rightarrow> (Inl (ClientError ''ValidationException''), logged (PutItem it) False w1)
            | Some k \<Rightarrow>
                (Inr (), logged (PutItem it) True (w1\<lparr>table := store_item k it (table w1)\<rparr>))))"

definition update_item :: "string \<Rightarrow> item \<Rightarrow> world \<Rightarrow> (pyerr + unit) \<times> world" where
  "update_item k sets w =
     (let (bad, w1) = tick w in
      if bad then (Inl service_error, logged (UpdateItem k sets) False w1)
      else
        (let old = (case lookup_item k (table w1) of
                      None \<Rightarrow> [(''plan_id'', PStr k)]
                    | Some it \<Rightarrow> it)
         in (Inr (), logged (UpdateItem k sets) True
                       (w1\<lparr>table := store_item k (assign_all sets old) (table w1)\<rparr>))))"

subsection \<open>The gateway's usage plans\<close>

definition lookup_plan :: "string \<Rightarrow> api_plan list \<Rightarrow> api_plan option" where
  "lookup_plan pid ps = find (\<lambda>p. ap_id p = pid) ps"

fun replace_plan :: "string \<Rightarrow> api_plan \<Rightarrow> api_plan list \<Rightarrow> api_plan list" where
  "replace_plan pid p' [] = []"
| "replace_plan pid p' (q # qs) =
     (if ap_id q = pid then p' # qs else q # replace_plan pid p' qs)"

fun remove_plan :: "string \<Rightarrow> api_plan list \<Rightarrow> api_plan list" where
  "remove_plan pid [] = []"
| "remove_plan pid (q # qs) = (if ap_id q = pid then qs else q # remove_plan pid qs)"

definition throttle_of :: "api_plan \<Rightarrow> throttle" where
  "throttle_of p =
     (case ap_throttle p of None \<Rightarrow> \<lparr>rateLimit = None, burstLimit = None\<rparr> | Some t \<Rightarrow> t)"

definition quota_of :: "api_plan \<Rightarrow> quota" where
  "quota_of p = (case ap_quota p of None \<Rightarrow> \<lparr>limit = None, period = None\<rparr> | Some q \<Rightarrow> q)"

text \<open>
  What one patch operation does to a plan; \<open>None\<close> is a request the gateway rejects.
  The value of an added stage is \<^verbatim>\<open>"<api id>:<stage name>"\<close>.
\<close>

definition apply_patch :: "patch_op \<Rightarrow> api_plan \<Rightarrow> api_plan option" where
  "apply_patch operation p =
     (case operation of
        Replace path n \<Rightarrow>
          if path = ''/throttle/rateLimit''
          then Some (p\<lparr>ap_throttle := Some ((throttle_of p)\<lparr>rateLimit := Some (of_int n)\<rparr>)\<rparr>)
          else if path = ''/throttle/burstLimit''
          then Some (p\<lparr>ap_throttle := Some ((throttle_of p)\<lparr>burstLimit := Some n\<rparr>)\<rparr>)
          else if path = ''/quota/limit''
          then Some (p\<lparr>ap_quota := Some ((quota_of p)\<lparr>limit := Some n\<rparr>)\<rparr>)
          else None
      | Add path v \<Rightarrow>
          if path = ''/apiStages''
          then (case split_on (CHR '':'') v of
                  [a, s] \<Rightarrow>
                    Some (p\<lparr>ap_apiStages :=
                             Some ((case ap_apiStages p of None \<Rightarrow> [] | Some ss \<Rightarrow> ss)
                                   @ [\<lparr>apiId = a, stage = s\<rparr>])\<rparr>)
                | _ \<Rightarrow> None)
          else None)"

fun apply_patches :: "patch_op list \<Rightarrow> api_plan \<Rightarrow> api_plan option" where
  "apply_patches [] p = Some p"
| "apply_patches (operation # ops) p =
     (case apply_patch operation p of None \<Rightarrow> None | Some p' \<Rightarrow> apply_patches ops p')"

definition get_usage_plans :: "world \<Rightarrow> (pyerr + api_plan list) \<times> world" where
  "get_usage_plans w =
     (let (bad, w1) = tick w in
      if bad then (Inl service_error, w1) else (Inr (plans w1), w1))"

definition get_usage_plan :: "string \<Rightarrow> world \<Rightarrow> (pyerr + api_plan) \<times> world" where
  "get_usage_plan pid w =
     (let (bad, w1) = tick w in
      if bad then (Inl service_error, w1)
      else (case lookup_plan pid (plans w1) of
              None \<Rightarrow> (Inl (ClientError ''NotFoundException''), w1)
            | Some p \<Rightarrow> (Inr p, w1)))"

text \<open>
  One \<^verbatim>\<open>update_usage_plan\<close> request carries a list of patch operations and is answered
  as a whole: the plan with all of them applied, or an error and the plan as it was.
\<close>

definition update_usage_plan ::
  "string \<Rightarrow> patch_op list \<Rightarrow> world \<Rightarrow> (pyerr + api_plan) \<times> world" where
  "update_usage_plan pid ops w =
     (let (bad, w1) = tick w in
      if bad then (Inl service_error, logged (UpdateUsagePlan pid ops) False w1)
      else (case lookup_plan pid (plans w1) of
              None \<Rightarrow>
                (Inl (ClientError ''NotFoundException''), logged (UpdateUsagePlan pid ops) False w1)
            | Some p \<Rightarrow>
                (case apply_patches ops p of
                   None \<Rightarrow>
                     (Inl (ClientError ''BadRequestException''),
                      logged (UpdateUsagePlan pid ops) False w1)
                 | Some p' \<Rightarrow>
                     (Inr p', logged (UpdateUsagePlan pid ops) True
                                (w1\<lparr>plans := replace_plan pid p' (plans w1)\<rparr>)))))"

definition delete_usage_plan :: "string \<Rightarrow> world \<Rightarrow> (pyerr + unit) \<times> world" where
  "delete_usage_plan pid w =
     (let (bad, w1) = tick w in
      if bad then (Inl service_error, logged (DeleteUsagePlan pid) False w1)
      else (case lookup_plan pid (plans w1) of
              None \<Rightarrow> (Inl (ClientError ''NotFoundException''), logged (DeleteUsagePlan pid) False w1)
            | Some p \<Rightarrow>
                (Inr (), logged (DeleteUsagePlan pid) True
                           (w1\<lparr>plans := remove_plan pid (plans w1)\<rparr>))))"

text \<open>
  \<^verbatim>\<open>create_usage_plan\<close> wants a string for the name and for the quota period (boto3
  refuses anything else) and answers with the identifier the gateway chose, here the
  next of \<open>fresh_ids\<close>.
\<close>

definition is_str :: "pyval \<Rightarrow> bool" where
  "is_str v = (case v of PStr s \<Rightarrow> True | _ \<Rightarrow> False)"

definition str_of :: "pyval \<Rightarrow> string" where
  "str_of v = (case v of PStr s \<Rightarrow> s | _ \<Rightarrow> [])"

definition params_valid :: "create_params \<Rightarrow> bool" where
  "params_valid cp =
     (is_str (cp_name cp) \<and> (case cp_quota cp of None \<Rightarrow> True | Some (n, per) \<Rightarrow> is_str per))"

definition new_plan :: "string \<Rightarrow> create_params \<Rightarrow> api_plan" where
  "new_plan pid cp =
     \<lparr>ap_id = pid, ap_name = str_of (cp_name cp), ap_description = None,
      ap_throttle = map_option (\<lambda>(r, b). \<lparr>rateLimit = Some r, burstLimit = Some b\<rparr>) (cp_throttle cp),
      ap_quota = map_option (\<lambda>(n, per). \<lparr>limit = Some n, period = Some (str_of per)\<rparr>) (cp_quota cp),
      ap_apiStages = None\<rparr>"

definition create_usage_plan :: "create_params \<Rightarrow> world \<Rightarrow> (pyerr + string) \<times> world" where
  "create_usage_plan cp w =
     (let (bad, w1) = tick w in
      if bad then (Inl service_error, logged (CreateUsagePlan cp) False w1)
      else if \<not> params_valid cp
      then (Inl (ClientError ''ParamValidationError''), logged (CreateUsagePlan cp) False w1)
      else (case fresh_ids w1 of
              [] \<Rightarrow> (Inl (ClientError ''LimitExceededException''),
                     logged (CreateUsagePlan cp) False w1)
            | pid # rest \<Rightarrow>
                (Inr pid, logged (CreateUsagePlan cp) True
                            (w1\<lparr>plans := plans w1 @ [new_plan pid cp], fresh_ids := rest\<rparr>))))"

definition get_stage :: "string \<Rightarrow> string \<Rightarrow> world \<Rightarrow> (pyerr + unit) \<times> world" where
  "get_stage api_id stage_name w =
     (let (bad, w1) = tick w in
      if bad then (Inl service_error, w1)
      else if (api_id, stage_name) \<in> set (live_stages w1) then (Inr (), w1)
      else (Inl (ClientError ''NotFoundException''), w1))"

subsection \<open>Notifications and evaluations\<close>

definition publish :: "notification \<Rightarrow> world \<Rightarrow> (pyerr + unit) \<times> world" where
  "publish n w =
     (let (bad, w1) = tick w in
      if bad then (Inl service_error, logged (Publish n) False w1)
      else (Inr (), logged (Publish n) True w1))"

definition put_evaluations :: "evaluation list \<Rightarrow> world \<Rightarrow> (pyerr + unit) \<times> world" where
  "put_evaluations es w =
     (let (bad, w1) = tick w in
      if bad then (Inl service_error, logged (PutEvaluations es) False w1)
      else (Inr (), logged (PutEvaluations es) True w1))"

section \<open>usage\_plan\_recovery\<close>

text \<open>
  The CloudTrail event, as far as the handlers read it: \<^verbatim>\<open>detail.eventName\<close> and
  \<^verbatim>\<open>detail.requestParameters.usagePlanId\<close>.
\<close>

record trail_event =
  eventName :: "string option"
  usagePlanId :: "string option"

record 'b response =
  statusCode :: int
  body :: 'b

datatype recovery_body = RecreatedSuccessfully string string | FailedToRecreate string

text \<open>
  \<^verbatim>\<open>
  def send_deletion_notification(plan_id, metadata, new_plan_id=None):
      try:
          message = {...}
          if new_plan_id: ... 'RECOVERED' ...
          else: ... 'PENDING_RECOVERY'
          sns.publish(...)
      except Exception as e:
          print(...)
  \<close>
  Of the message the model keeps the plan and the new identifier.
\<close>

definition send_deletion_notification :: "string \<Rightarrow> item \<Rightarrow> string option \<Rightarrow> world \<Rightarrow> world" where
  "send_deletion_notification plan_id metadata new_plan_id w =
     snd (publish (UsagePlanDeleted plan_id new_plan_id) w)"

text \<open>
  The first half of \<^verbatim>\<open>recreate_usage_plan\<close>: the parameters of the new plan.
  \<^verbatim>\<open>
  create_params = {'name': metadata.get('name', 'Recreated-Plan'), 'description': ...}
  if 'rate_limit' in metadata and 'burst_limit' in metadata:
      create_params['throttle'] = {'rateLimit': float(metadata['rate_limit']),
                                   'burstLimit': int(metadata['burst_limit'])}
  if 'quota_limit' in metadata and 'quota_period' in metadata:
      create_params['quota'] = {'limit': int(metadata['quota_limit']),
                                'period': metadata['quota_period']}
  \<close>
  The description is a text that nothing reads back and is left out.
\<close>

definition recreate_throttle :: "item \<Rightarrow> pyerr + (rat \<times> int) option" where
  "recreate_throttle metadata =
     (case (map_of metadata ''rate_limit'', map_of metadata ''burst_limit'') of
        (Some r, Some b) \<Rightarrow>
          (case py_float r of
             Inl e \<Rightarrow> Inl e
           | Inr rate \<Rightarrow> (case py_int b of Inl e \<Rightarrow> Inl e | Inr burst \<Rightarrow> Inr (Some (rate, burst))))
      | _ \<Rightarrow> Inr None)"

definition recreate_quota :: "item \<Rightarrow> pyerr + (int \<times> pyval) option" where
  "recreate_quota metadata =
     (case (map_of metadata ''quota_limit'', map_of metadata ''quota_period'') of
        (Some l, Some per) \<Rightarrow>
          (case py_int l of Inl e \<Rightarrow> Inl e | Inr n \<Rightarrow> Inr (Some (n, per)))
      | _ \<Rightarrow> Inr None)"

definition recreate_params :: "item \<Rightarrow> pyerr + create_params" where
  "recreate_params metadata =
     (case recreate_throttle metadata of
        Inl e \<Rightarrow> Inl e
      | Inr th \<Rightarrow>
          (case recreate_quota metadata of
             Inl e \<Rightarrow> Inl e
           | Inr qu \<Rightarrow>
               Inr \<lparr>cp_name = dict_get metadata ''name'' (PStr ''Recreated-Plan''),
                    cp_throttle = th, cp_quota = qu\<rparr>))"

text \<open>
  The stages to associate again, read from the ARNs of the record:
  \<^verbatim>\<open>
  for stage_arn in metadata['stages']:
      try:
          parts = stage_arn.split('/')
          if len(parts) >= 4:
              api_id = parts[2]
              stage_name = parts[4]
              api_stages.append({'apiId': api_id, 'stage': stage_name})
      except Exception as e:
          print(...)
  \<close>
  An entry that is not a string, or one that splits into exactly four parts, raises and
  is skipped by the \<^verbatim>\<open>except\<close>.
\<close>

definition parse_stage_arn :: "pyval \<Rightarrow> (string \<times> string) option" where
  "parse_stage_arn v =
     (case v of
        PStr s \<Rightarrow>
          (let parts = split_on (CHR ''/'') s in
           if length parts \<ge> 4 then
             (case (py_nth parts 2, py_nth parts 4) of
                (Inr api_id, Inr stage_name) \<Rightarrow> Some (api_id, stage_name)
              | _ \<Rightarrow> None)
           else None)
      | _ \<Rightarrow> None)"

definition stages_to_associate :: "item \<Rightarrow> (string \<times> string) list" where
  "stages_to_associate metadata =
     (case map_of metadata ''stages'' of
        Some (PList arns) \<Rightarrow> List.map_filter parse_stage_arn arns
      | _ \<Rightarrow> [])"

text \<open>
  \<^verbatim>\<open>
  associated_stages = 0
  for stage in api_stages:
      ...
      try:
          apigateway.update_usage_plan(usagePlanId=new_plan_id,
              patchOperations=[{'op': 'add', 'path': '/apiStages',
                                'value': f"{api_id}:{stage_name}"}])
          associated_stages += 1
      except Exception as e:
          print(...)
  \<close>
\<close>

fun associate_stages :: "string \<Rightarrow> (string \<times> string) list \<Rightarrow> nat \<Rightarrow> world \<Rightarrow> nat \<times> world" where
  "associate_stages new_plan_id [] associated w = (associated, w)"
| "associate_stages new_plan_id ((api_id, stage_name) # rest) associated w =
     (case update_usage_plan new_plan_id [Add ''/apiStages'' (api_id @ '':'' @ stage_name)] w of
        (Inl e, w1) \<Rightarrow> associate_stages new_plan_id rest associated w1
      | (Inr p, w1) \<Rightarrow> associate_stages new_plan_id rest (Suc associated) w1)"

text \<open>
  \<^verbatim>\<open>
  def recreate_usage_plan(metadata):
      try:
          <create_params>
          response = apigateway.create_usage_plan(**create_params)
          new_plan_id = response['id']
          try:
              <the stages, associated one by one>
          except Exception as e:
              print(...)
          return new_plan_id
      except Exception as e:
          return None
  \<close>
\<close>

definition recreate_usage_plan :: "item \<Rightarrow> world \<Rightarrow> string option \<times> world" where
  "recreate_usage_plan metadata w =
     (case recreate_params metadata of
        Inl e \<Rightarrow> (None, w)
      | Inr cp \<Rightarrow>
          (case create_usage_plan cp w of
             (Inl e, w1) \<Rightarrow> (None, w1)
           | (Inr new_plan_id, w1) \<Rightarrow>
               (Some new_plan_id,
                snd (associate_stages new_plan_id (stages_to_associate metadata) 0 w1))))"

text \<open>
  \<^verbatim>\<open>
  def update_dynamodb_record(old_plan_id, new_plan_id, metadata):
      try:
          new_metadata = dict(metadata)
          new_metadata['plan_id'] = new_plan_id
          new_metadata['recreated_from'] = old_plan_id
          new_metadata['recreated_at'] = datetime.utcnow().isoformat()
          table.put_item(Item=new_metadata)
          table.update_item(Key={'plan_id': old_plan_id},
              UpdateExpression="SET deleted = :deleted, recreated_as = :new_id, deleted_at = :timestamp",
              ExpressionAttributeValues={':deleted': True, ':new_id': new_plan_id,
                                         ':timestamp': datetime.utcnow().isoformat()})
          return True
      except Exception as e:
          return False
  \<close>
  The clock is read as \<open>now\<close>.
\<close>

definition new_metadata_of :: "string \<Rightarrow> string \<Rightarrow> string \<Rightarrow> item \<Rightarrow> item" where
  "new_metadata_of old_plan_id new_plan_id ts metadata =
     AList.update ''recreated_at'' (PStr ts)
       (AList.update ''recreated_from'' (PStr old_plan_id)
          (AList.update ''plan_id'' (PStr new_plan_id) metadata))"

definition deletion_marks :: "string \<Rightarrow> string \<Rightarrow> item" where
  "deletion_marks new_plan_id ts =
     [(''deleted'', PBool True), (''recreated_as'', PStr new_plan_id), (''deleted_at'', PStr ts)]"

definition update_dynamodb_record :: "string \<Rightarrow> string \<Rightarrow> item \<Rightarrow> world \<Rightarrow> bool \<times> world" where
  "update_dynamodb_record old_plan_id new_plan_id metadata w =
     (case put_item (new_metadata_of old_plan_id new_plan_id (now w) metadata) w of
        (Inl e, w1) \<Rightarrow> (False, w1)
      | (Inr u, w1) \<Rightarrow>
          (case update_item old_plan_id (deletion_marks new_plan_id (now w1)) w1 of
             (Inl e, w2) \<Rightarrow> (False, w2)
           | (Inr u', w2) \<Rightarrow> (True, w2)))"

text \<open>
  \<^verbatim>\<open>
  def lambda_handler(event, context):
      detail = event.get('detail', {})
      if detail.get('eventName') != 'DeleteUsagePlan':
          return
      deleted_plan_id = detail.get('requestParameters', {}).get('usagePlanId')
      if not deleted_plan_id:
          return
      table = dynamodb.Table(USAGE_PLANS_TABLE)
      response = table.get_item(Key={'plan_id': deleted_plan_id})
      if 'Item' not in response:
          return
      plan_metadata = response['Item']
      send_deletion_notification(deleted_plan_id, plan_metadata)
      new_plan_id = recreate_usage_plan(plan_metadata)
      if new_plan_id:
          update_dynamodb_record(deleted_plan_id, new_plan_id, plan_metadata)
          send_deletion_notification(deleted_plan_id, plan_metadata, new_plan_id)
          return {'statusCode': 200, 'body': ... 'Usage plan recreated successfully' ...}
      else:
          return {'statusCode': 500, 'body': ... 'Failed to recreate usage plan' ...}
  \<close>
  The \<^verbatim>\<open>get_item\<close> call is not guarded: its failure is the handler's.
\<close>

definition recovery_lambda_handler ::
  "trail_event \<Rightarrow> world \<Rightarrow> (pyerr + recovery_body response option) \<times> world" where
  "recovery_lambda_handler event w =
     (if eventName event \<noteq> Some ''DeleteUsagePlan'' then (Inr None, w)
      else (case usagePlanId event of
              None \<Rightarrow> (Inr None, w)
            | Some deleted_plan_id \<Rightarrow>
                if deleted_plan_id = [] then (Inr None, w)
                else (case get_item deleted_plan_id w of
                        (Inl e, w1) \<Rightarrow> (Inl e, w1)
                      | (Inr None, w1) \<Rightarrow> (Inr None, w1)
                      | (Inr (Some plan_metadata), w1) \<Rightarrow>
                          (let w2 = send_deletion_notification deleted_plan_id plan_metadata None w1 in
                           (case recreate_usage_plan plan_metadata w2 of
                              (Some new_plan_id, w3) \<Rightarrow>
                                if new_plan_id \<noteq> [] then
                                  (let w4 = snd (update_dynamodb_record deleted_plan_id new_plan_id
                                                   plan_metadata w3);
                                       w5 = send_deletion_notification deleted_plan_id plan_metadata
                                              (Some new_plan_id) w4
                                   in (Inr (Some \<lparr>statusCode = 200,
                                                   body = RecreatedSuccessfully deleted_plan_id new_plan_id\<rparr>),
                                       w5))
                                else (Inr (Some \<lparr>statusCode = 500,
                                                  body = FailedToRecreate deleted_plan_id\<rparr>), w3)
                            | (None, w3) \<Rightarrow>
                                (Inr (Some \<lparr>statusCode = 500,
                                             body = FailedToRecreate deleted_plan_id\<rparr>), w3))))))"

section \<open>configuration\_enforcement\<close>















section \<open>config\_compliance: the rule\<close>

record configuration_item =
  configurationItemStatus :: string
  resourceType :: string
  resourceId :: string
  configurationItemCaptureTime :: string

text \<open>
  The text of a value or of an exception inside a message. A string, \<^verbatim>\<open>None\<close> and the
  truth values are rendered as Python does; a number is rendered by its integer part and
  a list by a mark, and an exception by its kind: their exact texts belong to the Python
  runtime and to boto3, and no property below reads them.
\<close>

definition py_str :: "pyval \<Rightarrow> string" where
  "py_str v =
     (case v of
        PNone \<Rightarrow> ''None''
      | PBool b \<Rightarrow> (if b then ''True'' else ''False'')
      | PNum q \<Rightarrow> (if q < 0 then ''-'' else []) @ str_nat (nat \<bar>py_trunc q\<bar>)
      | PStr s \<Rightarrow> s
      | PList xs \<Rightarrow> ''[...]'')"

definition err_text :: "pyerr \<Rightarrow> string" where
  "err_text e =
     (case e of
        TypeError \<Rightarrow> ''TypeError''
      | ValueError \<Rightarrow> ''ValueError''
      | KeyError k \<Rightarrow> k
      | IndexError \<Rightarrow> ''IndexError''
      | ClientError c \<Rightarrow> c)"

text \<open>
  \<^verbatim>\<open>
  def create_evaluation_result(resource_type, resource_id, compliance_type, annotation,
                               configuration_item):
      return {'ComplianceResourceType': resource_type, 'ComplianceResourceId': resource_id,
              'ComplianceType': compliance_type,
              'Annotation': truncate_annotation(annotation),
              'OrderingTimestamp': configuration_item['configurationItemCaptureTime']}
  \<close>
\<close>

definition create_evaluation_result ::
  "string \<Rightarrow> string \<Rightarrow> compliance_type \<Rightarrow> string \<Rightarrow> configuration_item \<Rightarrow> evaluation" where
  "create_evaluation_result resource_type resource_id compliance annotation ci =
     \<lparr>ComplianceResourceType = resource_type, ComplianceResourceId = resource_id,
      ComplianceType = compliance, Annotation = truncate_annotation annotation,
      OrderingTimestamp = configurationItemCaptureTime ci\<rparr>"

definition result_for :: "configuration_item \<Rightarrow> compliance_type \<Rightarrow> string \<Rightarrow> evaluation" where
  "result_for ci compliance annotation =
     create_evaluation_result (resourceType ci) (resourceId ci) compliance annotation ci"

text \<open>
  The end of \<^verbatim>\<open>evaluate_resource_compliance\<close>:
  \<^verbatim>\<open>
  if violations:
      violation_summary = f"VIOLATIONS: {len(violations)} issues found"
      return create_evaluation_result(..., 'NON_COMPLIANT', violation_summary, ...)
  else:
      return create_evaluation_result(..., 'COMPLIANT',
                                      'Resource complies with DynamoDB metadata', ...)
  \<close>
  Only the number of violations is read.
\<close>

definition result_from_violations :: "configuration_item \<Rightarrow> nat \<Rightarrow> evaluation" where
  "result_from_violations ci n =
     (if n \<noteq> 0
      then result_for ci NON_COMPLIANT (''VIOLATIONS: '' @ str_nat n @ '' issues found'')
      else result_for ci COMPLIANT ''Resource complies with DynamoDB metadata'')"

text \<open>
  \<^verbatim>\<open>
  def verify_stage_exists(stage_arn):
      try:
          arn_parts = stage_arn.split('/')
          api_id = arn_parts[-3]
          stage_name = arn_parts[-1]
          apigateway.get_stage(restApiId=api_id, stageName=stage_name)
          return True
      except Exception:
          return False
  \<close>
\<close>

definition verify_stage_exists :: "string \<Rightarrow> world \<Rightarrow> bool \<times> world" where
  "verify_stage_exists stage_arn w =
     (case (py_nth (split_on (CHR ''/'') stage_arn) (- 3),
            py_nth (split_on (CHR ''/'') stage_arn) (- 1)) of
        (Inr api_id, Inr stage_name) \<Rightarrow>
          (case get_stage api_id stage_name w of
             (Inl e, w1) \<Rightarrow> (False, w1)
           | (Inr u, w1) \<Rightarrow> (True, w1))
      | _ \<Rightarrow> (False, w))"

text \<open>
  \<^verbatim>\<open>stage_arn in stages\<close>: membership in a list, a substring of a string; a number or
  \<^verbatim>\<open>True\<close> raises.
\<close>

fun is_substring :: "string \<Rightarrow> string \<Rightarrow> bool" where
  "is_substring xs [] = (xs = [])"
| "is_substring xs (y # ys) = (take (length xs) (y # ys) = xs \<or> is_substring xs ys)"

definition py_contains :: "pyval \<Rightarrow> string \<Rightarrow> pyerr + bool" where
  "py_contains container s =
     (case container of
        PList xs \<Rightarrow> Inr (PStr s \<in> set xs)
      | PStr t \<Rightarrow> Inr (is_substring s t)
      | _ \<Rightarrow> Inl TypeError)"

text \<open>
  \<^verbatim>\<open>
  def find_usage_plan_for_stage(stage_arn):
      try:
          response = table.scan()
          for item in response['Items']:
              stages = item.get('stages', [])
              if stages and stage_arn in stages:
                  print(f"Found matching plan: {item['plan_id']}")
                  return item
          return None
      except Exception as e:
          return None
  \<close>
\<close>

fun first_with_stage :: "string \<Rightarrow> item list \<Rightarrow> pyerr + item option" where
  "first_with_stage stage_arn [] = Inr None"
| "first_with_stage stage_arn (it # rest) =
     (if \<not> py_truthy (dict_get it ''stages'' (PList [])) then first_with_stage stage_arn rest
      else (case py_contains (dict_get it ''stages'' (PList [])) stage_arn of
              Inl e \<Rightarrow> Inl e
            | Inr False \<Rightarrow> first_with_stage stage_arn rest
            | Inr True \<Rightarrow>
                (case dict_index it ''plan_id'' of Inl e \<Rightarrow> Inl e | Inr k \<Rightarrow> Inr (Some it))))"

definition find_usage_plan_for_stage :: "string \<Rightarrow> world \<Rightarrow> item option \<times> world" where
  "find_usage_plan_for_stage stage_arn w =
     (case scan w of
        (Inl e, w1) \<Rightarrow> (None, w1)
      | (Inr items, w1) \<Rightarrow>
          (case first_with_stage stage_arn items of Inl e \<Rightarrow> (None, w1) | Inr r \<Rightarrow> (r, w1)))"




text \<open>
  The periodic evaluation. The live plans are indexed by name,
  \<^verbatim>\<open>api_plans = {plan.get('name'): plan.get('id') for plan in api_response.get('items', [])}\<close>,
  so of several plans with one name the last identifier stays, at the place of the first.
  \<^verbatim>\<open>plan_id not in api_plans\<close> hashes the key: a list raises.
\<close>

definition name_index :: "api_plan list \<Rightarrow> (string \<times> string) list" where
  "name_index ps = fold (\<lambda>p d. AList.update (ap_name p) (ap_id p) d) ps []"

definition key_in :: "pyval \<Rightarrow> (string \<times> string) list \<Rightarrow> pyerr + bool" where
  "key_in k d =
     (case k of
        PList xs \<Rightarrow> Inl TypeError
      | PStr s \<Rightarrow> Inr (map_of d s \<noteq> None)
      | _ \<Rightarrow> Inr False)"

text \<open>
  \<^verbatim>\<open>
  found_match = False
  for api_plan_name, api_plan_id in api_plans.items():
      try:
          api_plan_details = apigateway.get_usage_plan(usagePlanId=api_plan_id)
          if plans_match_by_config(db_plan, api_plan_details):
              found_match = True
              break
      except Exception:
          continue
  \<close>
\<close>

fun scan_for_match :: "item \<Rightarrow> (string \<times> string) list \<Rightarrow> world \<Rightarrow> bool \<times> world" where
  "scan_for_match db_plan [] w = (False, w)"
| "scan_for_match db_plan ((api_plan_name, api_plan_id) # rest) w =
     (case get_usage_plan api_plan_id w of
        (Inl e, w1) \<Rightarrow> scan_for_match db_plan rest w1
      | (Inr api_plan_details, w1) \<Rightarrow>
          if plans_match_by_config db_plan api_plan_details then (True, w1)
          else scan_for_match db_plan rest w1)"

definition missing_evaluation :: "pyval \<Rightarrow> evaluation" where
  "missing_evaluation plan_id =
     \<lparr>ComplianceResourceType = ''AWS::ApiGateway::UsagePlan'',
      ComplianceResourceId = ''missing-'' @ py_str plan_id,
      ComplianceType = NON_COMPLIANT,
      Annotation = truncate_annotation
        (''Usage plan '' @ py_str plan_id @ '' exists in DynamoDB but not in API Gateway''),
      OrderingTimestamp = ''2024-01-01T00:00:00.000Z''\<rparr>"

text \<open>
  \<^verbatim>\<open>
  for db_plan in db_plans:
      plan_id = db_plan.get('plan_id')
      if db_plan.get('deleted', False):
          continue
      if plan_id not in api_plans:
          <scan for a match by configuration>
          if not found_match:
              evaluations.append(<missing plan_id>)
  \<close>
\<close>

fun evaluate_db_plans ::
  "(string \<times> string) list \<Rightarrow> item list \<Rightarrow> evaluation list \<Rightarrow> world
     \<Rightarrow> (pyerr + evaluation list) \<times> world" where
  "evaluate_db_plans api_plans [] evaluations w = (Inr evaluations, w)"
| "evaluate_db_plans api_plans (db_plan # rest) evaluations w =
     (if py_truthy (dict_get db_plan ''deleted'' (PBool False))
      then evaluate_db_plans api_plans rest evaluations w
      else (case key_in (dict_get db_plan ''plan_id'' PNone) api_plans of
              Inl e \<Rightarrow> (Inl e, w)
            | Inr True \<Rightarrow> evaluate_db_plans api_plans rest evaluations w
            | Inr False \<Rightarrow>
                (case scan_for_match db_plan api_plans w of
                   (True, w1) \<Rightarrow> evaluate_db_plans api_plans rest evaluations w1
                 | (False, w1) \<Rightarrow>
                     evaluate_db_plans api_plans rest
                       (evaluations @ [missing_evaluation (dict_get db_plan ''plan_id'' PNone)]) w1)))"

text \<open>
  \<^verbatim>\<open>
  def evaluate_deleted_usage_plans():
      evaluations = []
      try:
          db_plans = table.scan().get('Items', [])
          api_response = apigateway.get_usage_plans()
          api_plans = {...}
          for db_plan in db_plans: ...
          return evaluations
      except Exception as e:
          return []
  \<close>
\<close>

definition evaluate_deleted_usage_plans :: "world \<Rightarrow> evaluation list \<times> world" where
  "evaluate_deleted_usage_plans w =
     (case scan w of
        (Inl e, w1) \<Rightarrow> ([], w1)
      | (Inr db_plans, w1) \<Rightarrow>
          (case get_usage_plans w1 of
             (Inl e, w2) \<Rightarrow> ([], w2)
           | (Inr ps, w2) \<Rightarrow>
               (case evaluate_db_plans (name_index ps) db_plans [] w2 of
                  (Inl e, w3) \<Rightarrow> ([], w3)
                | (Inr evaluations, w3) \<Rightarrow> (evaluations, w3))))"

text \<open>
  The stage branch of \<^verbatim>\<open>evaluate_resource_compliance\<close> first looks for a live plan
  that lists the stage:
  \<^verbatim>\<open>
  api_plan_id = None
  for plan in api_usage_plans.get('items', []):
      for stage in plan.get('apiStages', []):
          if stage.get('apiId') == api_id and stage.get('stage') == stage_name:
              api_plan_id = plan.get('id')
              break
      if api_plan_id:
          break
  \<close>
  The loop goes on after a plan whose identifier is empty, and \<^verbatim>\<open>if api_plan_id\<close> later
  reads an empty identifier like none: what counts is the first plan that lists the
  stage and has a non-empty identifier.
\<close>

definition lists_stage :: "string \<Rightarrow> string \<Rightarrow> api_plan \<Rightarrow> bool" where
  "lists_stage api_id stage_name p =
     list_ex (\<lambda>s. apiId s = api_id \<and> stage s = stage_name)
       (case ap_apiStages p of None \<Rightarrow> [] | Some ss \<Rightarrow> ss)"

definition plan_id_for_stage :: "string \<Rightarrow> string \<Rightarrow> api_plan list \<Rightarrow> string option" where
  "plan_id_for_stage api_id stage_name ps =
     map_option ap_id (find (\<lambda>p. lists_stage api_id stage_name p \<and> ap_id p \<noteq> []) ps)"

text \<open>
  \<^verbatim>\<open>
  try:
      api_plan = apigateway.get_usage_plan(usagePlanId=api_plan_id)
      print(f"Plan validation: DB plan={db_plan['plan_id']}, API plan={api_plan['id']}")
      plan_violations = validate_plan_configuration(db_plan, api_plan)
      if plan_violations:
          violations.extend(plan_violations)
  except Exception as e:
      violations.append(f"Error getting API Gateway usage plan {api_plan_id}: {str(e)}")
  \<close>
  The result is the number of violations collected.
\<close>

definition stage_plan_violations :: "item \<Rightarrow> string \<Rightarrow> world \<Rightarrow> nat \<times> world" where
  "stage_plan_violations db_plan api_plan_id w =
     (case get_usage_plan api_plan_id w of
        (Inl e, w1) \<Rightarrow> (1, w1)
      | (Inr p, w1) \<Rightarrow>
          (case dict_index db_plan ''plan_id'' of
             Inl e \<Rightarrow> (1, w1)
           | Inr k \<Rightarrow>
               (case validate_plan_configuration (aws_region w1) db_plan p of
                  Inl e \<Rightarrow> (1, w1)
                | Inr vs \<Rightarrow> (length vs, w1))))"

definition error_evaluating :: "configuration_item \<Rightarrow> pyerr \<Rightarrow> evaluation" where
  "error_evaluating ci e =
     result_for ci NON_COMPLIANT (''Error evaluating resource: '' @ err_text e)"

text \<open>
  The stage branch (\<^verbatim>\<open>resource_type == 'AWS::ApiGateway::Stage'\<close>); an exception that
  no inner handler takes ends in the outer one, \<^verbatim>\<open>Error evaluating resource\<close>.
\<close>

definition stage_without_record :: "configuration_item \<Rightarrow> string option \<Rightarrow> evaluation" where
  "stage_without_record ci api_plan_id =
     (case api_plan_id of
        Some pid \<Rightarrow>
          result_for ci NON_COMPLIANT
            (''Stage associated with plan '' @ pid @ '' in API Gateway but not in DynamoDB'')
      | None \<Rightarrow> result_for ci NON_COMPLIANT ''Stage not mapped to any usage plan'')"

definition stage_with_record ::
  "configuration_item \<Rightarrow> item \<Rightarrow> string option \<Rightarrow> world \<Rightarrow> evaluation \<times> world" where
  "stage_with_record ci db_plan api_plan_id w =
     (case api_plan_id of
        None \<Rightarrow>
          (case dict_index db_plan ''plan_id'' of
             Inl e \<Rightarrow> (error_evaluating ci e, w)
           | Inr k \<Rightarrow>
               (result_for ci NON_COMPLIANT
                  (''Stage mapped to plan '' @ py_str k @ '' in DynamoDB but not in API Gateway''),
                w))
      | Some pid \<Rightarrow>
          (case stage_plan_violations db_plan pid w of
             (n, w1) \<Rightarrow> (result_from_violations ci n, w1)))"

definition evaluate_stage :: "configuration_item \<Rightarrow> world \<Rightarrow> evaluation \<times> world" where
  "evaluate_stage ci w =
     (case verify_stage_exists (resourceId ci) w of
        (False, w1) \<Rightarrow> (result_for ci NOT_APPLICABLE ''Stage does not exist'', w1)
      | (True, w1) \<Rightarrow>
          (case (py_nth (split_on (CHR ''/'') (resourceId ci)) (- 3),
                 py_nth (split_on (CHR ''/'') (resourceId ci)) (- 1)) of
             (Inl e, r) \<Rightarrow> (error_evaluating ci e, w1)
           | (Inr api_id, Inl e) \<Rightarrow> (error_evaluating ci e, w1)
           | (Inr api_id, Inr stage_name) \<Rightarrow>
               (case get_usage_plans w1 of
                  (Inl e, w2) \<Rightarrow> (error_evaluating ci e, w2)
                | (Inr ps, w2) \<Rightarrow>
                    (case find_usage_plan_for_stage (resourceId ci) w2 of
                       (None, w3) \<Rightarrow>
                         (stage_without_record ci (plan_id_for_stage api_id stage_name ps), w3)
                     | (Some db_plan, w3) \<Rightarrow>
                         if db_plan = []
                         then (stage_without_record ci (plan_id_for_stage api_id stage_name ps), w3)
                         else stage_with_record ci db_plan
                                (plan_id_for_stage api_id stage_name ps) w3))))"

text \<open>
  The usage plan branch (\<^verbatim>\<open>resource_type == 'AWS::ApiGateway::UsagePlan'\<close>). The record
  is looked up under the name of the live plan, then by a scan for equal settings:
  \<^verbatim>\<open>
  for item in scan_response.get('Items', []):
      if (<the comparison of the three limits>):
          db_plan = item
          break
  \<close>
\<close>

fun first_item_by_settings :: "item list \<Rightarrow> api_plan \<Rightarrow> pyerr + item option" where
  "first_item_by_settings [] p = Inr None"
| "first_item_by_settings (it # rest) p =
     (case config_triple_eq it p of
        Inl e \<Rightarrow> Inl e
      | Inr True \<Rightarrow> Inr (Some it)
      | Inr False \<Rightarrow> first_item_by_settings rest p)"

definition error_getting_plan :: "configuration_item \<Rightarrow> pyerr \<Rightarrow> evaluation" where
  "error_getting_plan ci e =
     result_for ci NON_COMPLIANT (''Error getting API Gateway usage plan: '' @ err_text e)"

definition validate_and_classify ::
  "configuration_item \<Rightarrow> item \<Rightarrow> api_plan \<Rightarrow> world \<Rightarrow> evaluation" where
  "validate_and_classify ci db_plan p w =
     (case validate_plan_configuration (aws_region w) db_plan p of
        Inl e \<Rightarrow> error_getting_plan ci e
      | Inr vs \<Rightarrow> result_from_violations ci (length vs))"

text \<open>
  \<^verbatim>\<open>
  if not db_plan:
      # AUTOMATIC REMEDIATION: Delete orphaned usage plan
      try:
          apigateway.delete_usage_plan(usagePlanId=usage_plan_id)
          return create_evaluation_result(..., 'NON_COMPLIANT',
                                          f'REMEDIATED: Deleted orphaned plan {api_plan_name}', ...)
      except Exception as e:
          return create_evaluation_result(..., 'NON_COMPLIANT',
                     f'Usage plan not found in DynamoDB (auto-delete failed)', ...)
  \<close>
\<close>

definition delete_orphan :: "configuration_item \<Rightarrow> api_plan \<Rightarrow> world \<Rightarrow> evaluation \<times> world" where
  "delete_orphan ci p w =
     (case delete_usage_plan (resourceId ci) w of
        (Inl e, w1) \<Rightarrow>
          (result_for ci NON_COMPLIANT ''Usage plan not found in DynamoDB (auto-delete failed)'', w1)
      | (Inr u, w1) \<Rightarrow>
          (result_for ci NON_COMPLIANT (''REMEDIATED: Deleted orphaned plan '' @ ap_name p), w1))"

definition evaluate_usage_plan :: "configuration_item \<Rightarrow> world \<Rightarrow> evaluation \<times> world" where
  "evaluate_usage_plan ci w =
     (case get_usage_plan (resourceId ci) w of
        (Inl e, w1) \<Rightarrow> (error_getting_plan ci e, w1)
      | (Inr p, w1) \<Rightarrow>
          (case get_item (ap_name p) w1 of
             (Inl e, w2) \<Rightarrow> (error_getting_plan ci e, w2)
           | (Inr (Some db_plan), w2) \<Rightarrow> (validate_and_classify ci db_plan p w2, w2)
           | (Inr None, w2) \<Rightarrow>
               (case scan w2 of
                  (Inl e, w3) \<Rightarrow> (error_getting_plan ci e, w3)
                | (Inr items, w3) \<Rightarrow>
                    (case first_item_by_settings items p of
                       Inl e \<Rightarrow> (error_getting_plan ci e, w3)
                     | Inr None \<Rightarrow> delete_orphan ci p w3
                     | Inr (Some db_plan) \<Rightarrow>
                         if db_plan = [] then delete_orphan ci p w3
                         else (validate_and_classify ci db_plan p w3, w3)))))"

text \<open>
  \<^verbatim>\<open>
  def evaluate_resource_compliance(configuration_item):
      ...
      violations = []
      try:
          if resource_type == 'AWS::ApiGateway::Stage': ...
          elif resource_type == 'AWS::ApiGateway::UsagePlan': ...
          <result from violations>
      except Exception as e: ...
  \<close>
  For any other type no branch runs and the list of violations is empty.
\<close>

definition evaluate_resource_compliance :: "configuration_item \<Rightarrow> world \<Rightarrow> evaluation \<times> world" where
  "evaluate_resource_compliance ci w =
     (if resourceType ci = ''AWS::ApiGateway::Stage'' then evaluate_stage ci w
      else if resourceType ci = ''AWS::ApiGateway::UsagePlan'' then evaluate_usage_plan ci w
      else (result_from_violations ci 0, w))"

text \<open>
  \<^verbatim>\<open>
  def lambda_handler(event, context):
      invoking_event = json.loads(event['invokingEvent'])
      if 'configurationItem' not in invoking_event or not invoking_event['configurationItem']:
          evaluations = evaluate_deleted_usage_plans()
          if evaluations:
              config_client.put_evaluations(Evaluations=evaluations, ...)
          return {'statusCode': 200, 'body': f'Periodic evaluation completed: ...'}
      configuration_item = invoking_event['configurationItem']
      if configuration_item['configurationItemStatus'] in ['ResourceDeleted', 'ResourceNotRecorded']:
          return {'statusCode': 200, 'body': 'Skipped deleted/unrecorded resource'}
      ...
      if resource_type in ['AWS::ApiGateway::Stage', 'AWS::ApiGateway::UsagePlan']:
          evaluation = evaluate_resource_compliance(configuration_item)
      else:
          evaluation = {... 'ComplianceType': 'NOT_APPLICABLE',
                        'Annotation': f'Resource type {resource_type} not supported', ...}
      config_client.put_evaluations(Evaluations=[evaluation], ...)
      return {'statusCode': 200, 'body': 'Evaluation completed'}
  \<close>
  The handler's answer is modelled by the evaluations it submitted.
\<close>

datatype compliance_body =
    PeriodicCompleted "evaluation list"
  | SkippedResource
  | EvaluationCompleted evaluation

definition not_supported :: "configuration_item \<Rightarrow> evaluation" where
  "not_supported ci =
     \<lparr>ComplianceResourceType = resourceType ci, ComplianceResourceId = resourceId ci,
      ComplianceType = NOT_APPLICABLE,
      Annotation = ''Resource type '' @ resourceType ci @ '' not supported'',
      OrderingTimestamp = configurationItemCaptureTime ci\<rparr>"

definition evaluate_item :: "configuration_item \<Rightarrow> world \<Rightarrow> evaluation \<times> world" where
  "evaluate_item ci w =
     (if resourceType ci \<in> set [''AWS::ApiGateway::Stage'', ''AWS::ApiGateway::UsagePlan'']
      then evaluate_resource_compliance ci w
      else (not_supported ci, w))"

definition compliance_lambda_handler ::
  "configuration_item option \<Rightarrow> world \<Rightarrow> (pyerr + compliance_body response) \<times> world" where
  "compliance_lambda_handler invoking w =
     (case invoking of
        None \<Rightarrow>
          (case evaluate_deleted_usage_plans w of
             (evaluations, w1) \<Rightarrow>
               if evaluations \<noteq> [] then
                 (case put_evaluations evaluations w1 of
                    (Inl e, w2) \<Rightarrow> (Inl e, w2)
                  | (Inr u, w2) \<Rightarrow>
                      (Inr \<lparr>statusCode = 200, body = PeriodicCompleted evaluations\<rparr>, w2))
               else (Inr \<lparr>statusCode = 200, body = PeriodicCompleted evaluations\<rparr>, w1))
      | Some ci \<Rightarrow>
          if configurationItemStatus ci \<in> set [''ResourceDeleted'', ''ResourceNotRecorded'']
          then (Inr \<lparr>statusCode = 200, body = SkippedResource\<rparr>, w)
          else
            (case evaluate_item ci w of
               (ev, w1) \<Rightarrow>
                 (case put_evaluations [ev] w1 of
                    (Inl e, w2) \<Rightarrow> (Inl e, w2)
                  | (Inr u, w2) \<Rightarrow>
                      (Inr \<lparr>statusCode = 200, body = EvaluationCompleted ev\<rparr>, w2))))"

section \<open>Vocabulary of the properties\<close>

text \<open>The calls a handler issued between two states, oldest first.\<close>

definition new_calls :: "world \<Rightarrow> world \<Rightarrow> (call \<times> bool) list" where
  "new_calls w w' = drop (length (calls w)) (calls w')"

text \<open>The request that associates one stage with a plan, as \<open>associate_stages\<close> sends it.\<close>

definition association_call :: "string \<Rightarrow> string \<times> string \<Rightarrow> call" where
  "association_call pid st = UpdateUsagePlan pid [Add ''/apiStages'' (fst st @ '':'' @ snd st)]"

fun is_update_call :: "call \<Rightarrow> bool" where
  "is_update_call (UpdateUsagePlan pid ops) = True"
| "is_update_call c = False"

text \<open>An attribute of the governance record stored under a key.\<close>

definition record_attr :: "item list \<Rightarrow> string \<Rightarrow> string \<Rightarrow> pyval option" where
  "record_attr tbl k a = (case lookup_item k tbl of None \<Rightarrow> None | Some r \<Rightarrow> map_of r a)"


text \<open>
  The reading of the spec that the recovery handler is checked against: the stages named
  by the governance record under \<open>pid\<close> are exactly the stages associated with the live
  plan \<open>pid\<close>.
\<close>

definition stages_match_associated :: "world \<Rightarrow> string \<Rightarrow> bool" where
  "stages_match_associated w pid =
     (case (lookup_item pid (table w), lookup_plan pid (plans w)) of
        (Some r, Some p) \<Rightarrow>
          (case map_of r ''stages'' of
             Some (PList xs) \<Rightarrow> set xs = set (map PStr (api_stages_arns (aws_region w) p))
           | _ \<Rightarrow> False)
      | _ \<Rightarrow> False)"

subsection \<open>An example deployment\<close>

definition dev_arn :: string where
  "dev_arn = ''arn:aws:apigateway:us-east-1::/restapis/api1/stages/dev''"

definition prod_arn :: string where
  "prod_arn = ''arn:aws:apigateway:us-east-1::/restapis/api1/stages/prod''"

definition basic_record :: item where
  "basic_record =
     [(''plan_id'', PStr ''old1''), (''name'', PStr ''Basic Tier''),
      (''rate_limit'', PNum 50), (''burst_limit'', PNum 100), (''quota_limit'', PNum 10000),
      (''quota_period'', PStr ''MONTH''), (''stages'', PList [PStr dev_arn, PStr prod_arn])]"

text \<open>
  The record of a plan that has just been deleted from the gateway; \<open>f\<close> says which of
  the coming calls fail.
\<close>

definition after_deletion :: "(nat \<Rightarrow> bool) \<Rightarrow> world" where
  "after_deletion f =
     \<lparr>table = [basic_record], plans = [],
      live_stages = [(''api1'', ''dev''), (''api1'', ''prod'')],
      fresh_ids = [''new1'', ''new2''], now = ''2024-05-01T00:00:00'',
      aws_region = Some ''us-east-1'', faults = f, step = 0, calls = []\<rparr>"

definition deletion_event :: trail_event where
  "deletion_event = \<lparr>eventName = Some ''DeleteUsagePlan'', usagePlanId = Some ''old1''\<rparr>"

text \<open>
  The spec's reading of a limit of the governance record: an absent attribute counts as
  0, a present one is coerced to an integer (which may fail).
\<close>

definition limit_or_zero :: "item \<Rightarrow> string \<Rightarrow> pyerr + int" where
  "limit_or_zero db_plan k = (case map_of db_plan k of None \<Rightarrow> Inr 0 | Some v \<Rightarrow> py_int v)"


text \<open>
  The four comparisons of the drift detector, as the spec names them: the three limits
  equal as integers, and the two sets of stage references equal.
\<close>

definition four_comparisons_equal :: "string option \<Rightarrow> item \<Rightarrow> api_plan \<Rightarrow> bool" where
  "four_comparisons_equal r db_plan p =
     (limit_or_zero db_plan ''rate_limit'' = Inr (api_rate p)
      \<and> limit_or_zero db_plan ''burst_limit'' = Inr (api_burst p)
      \<and> limit_or_zero db_plan ''quota_limit'' = Inr (api_quota_limit p)
      \<and> (case db_stages_set (dict_get db_plan ''stages'' (PList [])) of
            Inl e \<Rightarrow> False
          | Inr s \<Rightarrow> set s = set (map PStr (api_stages_arns r p))))"


text \<open>Live plans for the resolver: two with the settings of the example record, in a row.\<close>

definition plan_with :: "string \<Rightarrow> string \<Rightarrow> rat \<Rightarrow> int \<Rightarrow> int \<Rightarrow> api_plan" where
  "plan_with pid nm r b q =
     \<lparr>ap_id = pid, ap_name = nm, ap_description = None,
      ap_throttle = Some \<lparr>rateLimit = Some r, burstLimit = Some b\<rparr>,
      ap_quota = Some \<lparr>limit = Some q, period = Some ''MONTH''\<rparr>, ap_apiStages = None\<rparr>"



text \<open>Configuration items for the rule, and a world with one drifted live plan.\<close>

definition usage_plan_item :: "string \<Rightarrow> configuration_item" where
  "usage_plan_item pid =
     \<lparr>configurationItemStatus = ''OK'', resourceType = ''AWS::ApiGateway::UsagePlan'',
      resourceId = pid, configurationItemCaptureTime = ''2024-05-01T00:00:00.000Z''\<rparr>"

definition stage_item :: "string \<Rightarrow> configuration_item" where
  "stage_item arn =
     \<lparr>configurationItemStatus = ''OK'', resourceType = ''AWS::ApiGateway::Stage'',
      resourceId = arn, configurationItemCaptureTime = ''2024-05-01T00:00:00.000Z''\<rparr>"

definition governed_world :: "item list \<Rightarrow> api_plan list \<Rightarrow> (nat \<Rightarrow> bool) \<Rightarrow> world" where
  "governed_world tbl ps f =
     \<lparr>table = tbl, plans = ps, live_stages = [(''api1'', ''dev''), (''api1'', ''prod'')],
      fresh_ids = [], now = ''2024-05-01T00:00:00'', aws_region = Some ''us-east-1'',
      faults = f, step = 0, calls = []\<rparr>"

text \<open>A record stored under the name of its plan, and the plan in step with it.\<close>

definition named_record :: item where
  "named_record =
     [(''plan_id'', PStr ''Basic Tier''), (''name'', PStr ''Basic Tier''),
      (''rate_limit'', PNum 50), (''burst_limit'', PNum 100), (''quota_limit'', PNum 10000),
      (''quota_period'', PStr ''MONTH''), (''stages'', PList [])]"

text \<open>A live plan that lists the two stages of \<open>basic_record\<close>.\<close>

definition staged_plan :: api_plan where
  "staged_plan =
     (plan_with ''p9'' ''Basic Tier'' 50 100 10000)
       \<lparr>ap_apiStages := Some [\<lparr>apiId = ''api1'', stage = ''dev''\<rparr>,
                              \<lparr>apiId = ''api1'', stage = ''prod''\<rparr>]\<rparr>"

definition bucket_item :: configuration_item where
  "bucket_item =
     \<lparr>configurationItemStatus = ''OK'', resourceType = ''AWS::S3::Bucket'',
      resourceId = ''logs'', configurationItemCaptureTime = ''2024-05-01T00:00:00.000Z''\<rparr>"

definition gone_arn :: string where
  "gone_arn = ''arn:aws:apigateway:us-east-1::/restapis/api1/stages/gone''"















section \<open>Properties\<close>

subsection \<open>Annotation truncation\<close>

lemma truncate_annotation_short: "length s \<le> 256 \<Longrightarrow> truncate_annotation s = s"
  by (simp add: truncate_annotation_def truncate_annotation_to_def)

lemma truncate_annotation_long:
  "256 < length s \<Longrightarrow> truncate_annotation s = take 253 s @ ''...''"
  by (simp add: truncate_annotation_def truncate_annotation_to_def py_slice_to_def)

text \<open>
  C9. An annotation of at most 256 characters is returned unchanged. A longer one is cut
  to its first 253 characters (\<open>max_length - 3\<close>) followed by \<open>...\<close>, 256 characters in
  all; so a message of 300 characters becomes one of 256 ending in \<open>...\<close>, and a message
  of 200 characters stays as it is.
\<close>

theorem truncate_annotation_spec:
  "(length s \<le> 256 \<longrightarrow> truncate_annotation s = s)
   \<and> (256 < length s \<longrightarrow>
        truncate_annotation s = take (256 - 3) s @ ''...''
        \<and> length (truncate_annotation s) = 256)
   \<and> (length s = 300 \<longrightarrow>
        length (truncate_annotation s) = 256
        \<and> drop 253 (truncate_annotation s) = ''...'')
   \<and> (length s = 200 \<longrightarrow> truncate_annotation s = s)"
  by (simp add: truncate_annotation_short truncate_annotation_long)

theorem truncate_annotation_spec_witness:
  "length (replicate 300 (CHR ''a'')) = 300
   \<and> length (truncate_annotation (replicate 300 (CHR ''a''))) = 256
   \<and> drop 253 (truncate_annotation (replicate 300 (CHR ''a''))) = ''...''
   \<and> truncate_annotation (replicate 300 (CHR ''a'')) = replicate 253 (CHR ''a'') @ ''...''
   \<and> length (replicate 200 (CHR ''b'')) = 200
   \<and> truncate_annotation (replicate 200 (CHR ''b'')) = replicate 200 (CHR ''b'')"
  using truncate_annotation_spec [of "replicate 300 (CHR ''a'')"]
        truncate_annotation_spec [of "replicate 200 (CHR ''b'')"]
  by simp

subsection \<open>The stores\<close>

lemma lookup_store_item:
  "key_of it = Some k \<Longrightarrow>
   lookup_item k' (store_item k it tbl) = (if k' = k then Some it else lookup_item k' tbl)"
  by (induction tbl) (auto simp: lookup_item_def)

lemma lookup_item_key: "lookup_item k tbl = Some it \<Longrightarrow> key_of it = Some k"
  by (auto simp: lookup_item_def dest: find_Some_iff[THEN iffD1])

lemma map_of_new_metadata:
  "map_of (new_metadata_of old new ts md) =
   (map_of md)(''plan_id'' \<mapsto> PStr new, ''recreated_from'' \<mapsto> PStr old,
               ''recreated_at'' \<mapsto> PStr ts)"
  by (simp add: new_metadata_of_def update_conv')

lemma map_of_deletion_marks:
  "map_of (assign_all (deletion_marks new ts) it) =
   (map_of it)(''deleted'' \<mapsto> PBool True, ''recreated_as'' \<mapsto> PStr new,
               ''deleted_at'' \<mapsto> PStr ts)"
  by (simp add: assign_all_def deletion_marks_def update_conv')

lemma key_of_new_metadata: "key_of (new_metadata_of old new ts md) = Some new"
  by (simp add: key_of_def map_of_new_metadata)

lemma key_of_deletion_marks: "key_of (assign_all (deletion_marks new ts) it) = key_of it"
  by (simp add: key_of_def map_of_deletion_marks)

lemma get_item_result:
  "get_item k w = (r, w1) \<Longrightarrow>
   w1 = w\<lparr>step := Suc (step w)\<rparr> \<and> (r = Inl service_error \<or> r = Inr (lookup_item k (table w)))"
  by (auto simp: get_item_def tick_def split: if_splits)

lemma publish_result:
  "publish n w = (r, w1) \<Longrightarrow>
   \<exists>ok. w1 = w\<lparr>step := Suc (step w), calls := calls w @ [(Publish n, ok)]\<rparr>"
  by (auto simp: publish_def tick_def logged_def split: if_splits)

lemma put_item_result:
  "put_item it w = (r, w1) \<Longrightarrow>
   (\<exists>e. r = Inl e \<and> w1 = w\<lparr>step := Suc (step w), calls := calls w @ [(PutItem it, False)]\<rparr>)
   \<or> (\<exists>k. r = Inr () \<and> key_of it = Some k
        \<and> w1 = w\<lparr>step := Suc (step w), table := store_item k it (table w),
                 calls := calls w @ [(PutItem it, True)]\<rparr>)"
  by (auto simp: put_item_def tick_def logged_def split: if_splits option.splits)

lemma update_item_result:
  "update_item k sets w = (r, w1) \<Longrightarrow>
   (\<exists>e. r = Inl e
      \<and> w1 = w\<lparr>step := Suc (step w), calls := calls w @ [(UpdateItem k sets, False)]\<rparr>)
   \<or> (r = Inr ()
        \<and> w1 = w\<lparr>step := Suc (step w),
                 table := store_item k
                   (assign_all sets (case lookup_item k (table w) of
                                       None \<Rightarrow> [(''plan_id'', PStr k)] | Some it \<Rightarrow> it))
                   (table w),
                 calls := calls w @ [(UpdateItem k sets, True)]\<rparr>)"
  by (auto simp: update_item_def tick_def logged_def Let_def split: if_splits option.splits)

lemma update_usage_plan_result:
  "update_usage_plan pid ops w = (r, w1) \<Longrightarrow>
   table w1 = table w \<and> now w1 = now w \<and> fresh_ids w1 = fresh_ids w
   \<and> aws_region w1 = aws_region w
   \<and> (\<exists>ok. calls w1 = calls w @ [(UpdateUsagePlan pid ops, ok)]
         \<and> (ok \<longleftrightarrow> (\<exists>p. r = Inr p)) \<and> (\<not> ok \<longrightarrow> plans w1 = plans w))"
  by (auto simp: update_usage_plan_def tick_def logged_def split: if_splits option.splits)

lemma create_usage_plan_result:
  "create_usage_plan cp w = (r, w1) \<Longrightarrow>
   table w1 = table w \<and> now w1 = now w
   \<and> ((\<exists>e. r = Inl e \<and> calls w1 = calls w @ [(CreateUsagePlan cp, False)] \<and> plans w1 = plans w)
      \<or> (\<exists>new. r = Inr new \<and> calls w1 = calls w @ [(CreateUsagePlan cp, True)]
            \<and> plans w1 = plans w @ [new_plan new cp]))"
  by (auto simp: create_usage_plan_def tick_def logged_def split: if_splits list.splits)

subsection \<open>usage\_plan\_recovery\<close>

lemma associate_stages_result:
  "associate_stages pid ss n w = (m, w') \<Longrightarrow>
   table w' = table w \<and> now w' = now w
   \<and> (\<exists>oks. length oks = length ss
         \<and> calls w' = calls w @ zip (map (association_call pid) ss) oks)"
proof (induction pid ss n w arbitrary: m w' rule: associate_stages.induct)
  case (1 pid n w)
  then show ?case by simp
next
  case (2 pid a s rest n w)
  obtain r w1 where u: "update_usage_plan pid [Add ''/apiStages'' (a @ '':'' @ s)] w = (r, w1)"
    by (cases "update_usage_plan pid [Add ''/apiStages'' (a @ '':'' @ s)] w")
  from update_usage_plan_result[OF u] obtain ok where
    f: "table w1 = table w" "now w1 = now w"
    and c: "calls w1 = calls w @ [(UpdateUsagePlan pid [Add ''/apiStages'' (a @ '':'' @ s)], ok)]"
    by blast
  have "\<exists>n'. associate_stages pid rest n' w1 = (m, w')
           \<and> (table w' = table w1 \<and> now w' = now w1
              \<and> (\<exists>oks. length oks = length rest
                    \<and> calls w' = calls w1 @ zip (map (association_call pid) rest) oks))"
    using "2.prems" "2.IH"(1)[OF u[symmetric]] "2.IH"(2)[OF u[symmetric]] u
    by (cases r) auto
  then obtain oks where o: "length oks = length rest"
      "calls w' = calls w1 @ zip (map (association_call pid) rest) oks"
      and t: "table w' = table w1" "now w' = now w1"
    by blast
  have "length (ok # oks) = length ((a, s) # rest)
        \<and> calls w' = calls w @ zip (map (association_call pid) ((a, s) # rest)) (ok # oks)"
    using o c by (simp add: association_call_def)
  then show ?case using t f by metis
qed

lemma recreate_usage_plan_result:
  assumes "recreate_usage_plan md w = (r, w')"
  shows "table w' = table w \<and> now w' = now w
   \<and> ((r = None \<and> plans w' = plans w
         \<and> (calls w' = calls w \<or> (\<exists>cp. calls w' = calls w @ [(CreateUsagePlan cp, False)])))
      \<or> (\<exists>new cp oks. r = Some new \<and> length oks = length (stages_to_associate md)
            \<and> calls w' = calls w @ (CreateUsagePlan cp, True)
                           # zip (map (association_call new) (stages_to_associate md)) oks))"
proof (cases "recreate_params md")
  case (Inl e)
  then show ?thesis using assms by (simp add: recreate_usage_plan_def)
next
  case (Inr cp)
  obtain rc w1 where c: "create_usage_plan cp w = (rc, w1)"
    by (cases "create_usage_plan cp w")
  note cr = create_usage_plan_result[OF c]
  show ?thesis
  proof (cases rc)
    case (Inl e)
    then show ?thesis using assms Inr c cr by (auto simp: recreate_usage_plan_def)
  next
    case (Inr new)
    obtain m w2 where a: "associate_stages new (stages_to_associate md) 0 w1 = (m, w2)"
      by (cases "associate_stages new (stages_to_associate md) 0 w1")
    from associate_stages_result[OF a] obtain oks where
      o: "length oks = length (stages_to_associate md)"
         "calls w2 = calls w1 @ zip (map (association_call new) (stages_to_associate md)) oks"
      and f: "table w2 = table w1" "now w2 = now w1"
      by blast
    have r: "r = Some new" "w' = w2"
      using assms \<open>recreate_params md = Inr cp\<close> c Inr a by (simp_all add: recreate_usage_plan_def)
    have "calls w' = calls w @ (CreateUsagePlan cp, True)
                      # zip (map (association_call new) (stages_to_associate md)) oks"
      using o r cr Inr by auto
    then show ?thesis using r o f cr by auto
  qed
qed

lemma update_dynamodb_record_result:
  assumes "update_dynamodb_record old new md w = (b, w')"
  defines "nm \<equiv> new_metadata_of old new (now w) md"
  defines "marks \<equiv> deletion_marks new (now w)"
  shows "plans w' = plans w \<and> now w' = now w \<and>
     ((\<not> b \<and> calls w' = calls w @ [(PutItem nm, False)] \<and> table w' = table w)
    \<or> (\<not> b \<and> calls w' = calls w @ [(PutItem nm, True), (UpdateItem old marks, False)]
         \<and> table w' = store_item new nm (table w))
    \<or> (b \<and> calls w' = calls w @ [(PutItem nm, True), (UpdateItem old marks, True)]
         \<and> table w' = store_item old
              (assign_all marks (case lookup_item old (store_item new nm (table w)) of
                                   None \<Rightarrow> [(''plan_id'', PStr old)] | Some it \<Rightarrow> it))
              (store_item new nm (table w))))"
proof -
  obtain r1 w1 where p: "put_item nm w = (r1, w1)" by (cases "put_item nm w")
  note pr = put_item_result[OF p]
  show ?thesis
  proof (cases r1)
    case (Inl e)
    then show ?thesis using assms p pr by (auto simp: update_dynamodb_record_def)
  next
    case (Inr u)
    then have w1: "w1 = w\<lparr>step := Suc (step w), table := store_item new nm (table w),
                          calls := calls w @ [(PutItem nm, True)]\<rparr>"
      using pr by (auto simp: nm_def key_of_new_metadata)
    obtain r2 w2 where u: "update_item old marks w1 = (r2, w2)"
      by (cases "update_item old marks w1")
    note ur = update_item_result[OF u]
    have m: "deletion_marks new (now w1) = marks" using w1 by (simp add: marks_def)
    show ?thesis
    proof (cases r2)
      case (Inl e)
      then show ?thesis using assms(1) p Inr u ur w1 m
        by (auto simp: update_dynamodb_record_def nm_def[symmetric])
    next
      case (Inr u')
      then show ?thesis using assms(1) p \<open>r1 = Inr u\<close> u ur w1 m
        by (auto simp: update_dynamodb_record_def nm_def[symmetric])
    qed
  qed
qed

lemma send_deletion_notification_result:
  "\<exists>ok. send_deletion_notification pid md n w
         = w\<lparr>step := Suc (step w), calls := calls w @ [(Publish (UsagePlanDeleted pid n), ok)]\<rparr>"
  using publish_result[of "UsagePlanDeleted pid n" w]
  by (cases "publish (UsagePlanDeleted pid n) w") (auto simp: send_deletion_notification_def)

lemma recovery_handler_run:
  assumes "recovery_lambda_handler ev w = (r, w')"
  shows "(r = Inr None \<and> w' = w)
    \<or> (\<exists>old. usagePlanId ev = Some old \<and> old \<noteq> [] \<and>
         ((w' = w\<lparr>step := Suc (step w)\<rparr>
             \<and> (r = Inl service_error \<or> (r = Inr None \<and> lookup_item old (table w) = None)))
          \<or> (\<exists>md r3 w3. lookup_item old (table w) = Some md
               \<and> recreate_usage_plan md
                    (send_deletion_notification old md None (w\<lparr>step := Suc (step w)\<rparr>)) = (r3, w3)
               \<and> (((r3 = None \<or> r3 = Some [])
                     \<and> r = Inr (Some \<lparr>statusCode = 500, body = FailedToRecreate old\<rparr>) \<and> w' = w3)
                  \<or> (\<exists>new. r3 = Some new \<and> new \<noteq> []
                        \<and> r = Inr (Some \<lparr>statusCode = 200, body = RecreatedSuccessfully old new\<rparr>)
                        \<and> w' = send_deletion_notification old md (Some new)
                                 (snd (update_dynamodb_record old new md w3)))))))"
proof (cases "eventName ev \<noteq> Some ''DeleteUsagePlan'' \<or> usagePlanId ev = None
              \<or> usagePlanId ev = Some []")
  case True
  then show ?thesis using assms
    by (auto simp: recovery_lambda_handler_def split: if_splits option.splits)
next
  case False
  then obtain old where old: "eventName ev = Some ''DeleteUsagePlan''"
      "usagePlanId ev = Some old" "old \<noteq> []"
    by auto
  obtain g w1 where g: "get_item old w = (g, w1)" by (cases "get_item old w")
  note gr = get_item_result[OF g]
  show ?thesis
  proof (cases "g = Inr (lookup_item old (table w)) \<and> lookup_item old (table w) \<noteq> None")
    case False
    then show ?thesis using assms old g gr
      by (auto simp: recovery_lambda_handler_def)
  next
    case True
    then obtain md where md: "lookup_item old (table w) = Some md" "g = Inr (Some md)" by auto
    obtain r3 w3 where rc: "recreate_usage_plan md
            (send_deletion_notification old md None (w\<lparr>step := Suc (step w)\<rparr>)) = (r3, w3)"
      by (cases "recreate_usage_plan md
            (send_deletion_notification old md None (w\<lparr>step := Suc (step w)\<rparr>))")
    show ?thesis using assms old g gr md rc
      by (auto simp: recovery_lambda_handler_def Let_def split: option.splits if_splits)
  qed
qed

lemma zip_calls_are_updates:
  "(c, ok) \<in> set (zip (map (association_call pid) ss) oks) \<Longrightarrow> is_update_call c"
  by (auto dest!: set_zip_leftD simp: association_call_def)

lemma filter_updates_zip:
  "length oks = length ss \<Longrightarrow>
   map fst (filter (is_update_call \<circ> fst) (zip (map (association_call pid) ss) oks))
     = map (association_call pid) ss"
proof (induction ss arbitrary: oks)
  case Nil
  then show ?case by simp
next
  case (Cons s ss)
  then obtain ok oks' where "oks = ok # oks'" by (cases oks) auto
  then show ?case using Cons by (simp add: association_call_def)
qed

text \<open>
  The calls of a run that recreated the plan: the first notification, the creation, one
  association request for every stage read from the record, the writes to the table, the
  second notification.
\<close>

lemma recovery_success_calls:
  assumes run: "recovery_lambda_handler ev w
                  = (Inr (Some \<lparr>statusCode = 200, body = RecreatedSuccessfully old new\<rparr>), w')"
  shows "\<exists>md w3 b w4 ok1 cp oks ok2.
           lookup_item old (table w) = Some md
         \<and> table w3 = table w \<and> now w3 = now w
         \<and> update_dynamodb_record old new md w3 = (b, w4)
         \<and> table w' = table w4
         \<and> length oks = length (stages_to_associate md)
         \<and> new_calls w w' =
              (Publish (UsagePlanDeleted old None), ok1) # (CreateUsagePlan cp, True)
              # zip (map (association_call new) (stages_to_associate md)) oks
              @ new_calls w3 w4 @ [(Publish (UsagePlanDeleted old (Some new)), ok2)]"
proof -
  from recovery_handler_run[OF run] obtain md r3 w3 where
    md: "lookup_item old (table w) = Some md"
    and rc: "recreate_usage_plan md
               (send_deletion_notification old md None (w\<lparr>step := Suc (step w)\<rparr>)) = (r3, w3)"
    and r3: "r3 = Some new"
    and w': "w' = send_deletion_notification old md (Some new)
                    (snd (update_dynamodb_record old new md w3))"
    by auto
  let ?w2 = "send_deletion_notification old md None (w\<lparr>step := Suc (step w)\<rparr>)"
  obtain ok1 where w2: "?w2 = w\<lparr>step := Suc (Suc (step w)),
      calls := calls w @ [(Publish (UsagePlanDeleted old None), ok1)]\<rparr>"
    using send_deletion_notification_result[of old md None "w\<lparr>step := Suc (step w)\<rparr>"] by auto
  from recreate_usage_plan_result[OF rc] r3 obtain cp oks where
    c3: "length oks = length (stages_to_associate md)"
        "calls w3 = calls ?w2 @ (CreateUsagePlan cp, True)
             # zip (map (association_call new) (stages_to_associate md)) oks"
    and f3: "table w3 = table ?w2" "now w3 = now ?w2"
    by auto
  obtain b w4 where u: "update_dynamodb_record old new md w3 = (b, w4)"
    by (cases "update_dynamodb_record old new md w3")
  from update_dynamodb_record_result[OF u] obtain ws where c4: "calls w4 = calls w3 @ ws"
    by fastforce
  obtain ok2 where w5: "w' = w4\<lparr>step := Suc (step w4),
      calls := calls w4 @ [(Publish (UsagePlanDeleted old (Some new)), ok2)]\<rparr>"
    using send_deletion_notification_result[of old md "Some new" w4] w' u by auto
  have "new_calls w3 w4 = ws" using c4 by (simp add: new_calls_def)
  then have "new_calls w w' =
              (Publish (UsagePlanDeleted old None), ok1) # (CreateUsagePlan cp, True)
              # zip (map (association_call new) (stages_to_associate md)) oks
              @ new_calls w3 w4 @ [(Publish (UsagePlanDeleted old (Some new)), ok2)]"
    using w2 c3 c4 w5 by (simp add: new_calls_def)
  moreover have "table w3 = table w" "now w3 = now w" "table w' = table w4"
    using f3 w2 w5 by simp_all
  ultimately show ?thesis using md u c3(1) by blast
qed

text \<open>
  C6. When the creation of the replacement plan fails, the handler answers 500
  (\<open>Failed to recreate usage plan\<close>) and the table of governance records is what it was:
  no new record, no deleted flag and no lineage pointer is written.
\<close>

theorem failed_creation_leaves_record:
  assumes run: "recovery_lambda_handler ev w = (r, w')"
    and failed: "(CreateUsagePlan cp, False) \<in> set (new_calls w w')"
  shows "table w' = table w
       \<and> (\<exists>old. usagePlanId ev = Some old
             \<and> r = Inr (Some \<lparr>statusCode = 500, body = FailedToRecreate old\<rparr>))"
proof -
  from recovery_handler_run[OF run]
  consider (ignored) "w' = w"
    | (noitem) "w' = w\<lparr>step := Suc (step w)\<rparr>"
    | (failed) old md r3 where "usagePlanId ev = Some old"
        "recreate_usage_plan md
           (send_deletion_notification old md None (w\<lparr>step := Suc (step w)\<rparr>)) = (r3, w')"
        "r = Inr (Some \<lparr>statusCode = 500, body = FailedToRecreate old\<rparr>)"
    | (recreated) old new where
        "r = Inr (Some \<lparr>statusCode = 200, body = RecreatedSuccessfully old new\<rparr>)"
    by blast
  then show ?thesis
  proof cases
    case ignored
    then show ?thesis using failed by (simp add: new_calls_def)
  next
    case noitem
    then show ?thesis using failed by (simp add: new_calls_def)
  next
    case failed
    obtain ok1 where "send_deletion_notification old md None (w\<lparr>step := Suc (step w)\<rparr>)
        = w\<lparr>step := Suc (Suc (step w)),
             calls := calls w @ [(Publish (UsagePlanDeleted old None), ok1)]\<rparr>"
      using send_deletion_notification_result[of old md None "w\<lparr>step := Suc (step w)\<rparr>"] by auto
    then show ?thesis using recreate_usage_plan_result[OF failed(2)] failed(1,3) by simp
  next
    case recreated
    from recovery_success_calls[OF run[unfolded recreated]] obtain md w3 b w4 ok1 cp' oks ok2 where
      u: "update_dynamodb_record old new md w3 = (b, w4)"
      and c: "new_calls w w' =
              (Publish (UsagePlanDeleted old None), ok1) # (CreateUsagePlan cp', True)
              # zip (map (association_call new) (stages_to_associate md)) oks
              @ new_calls w3 w4 @ [(Publish (UsagePlanDeleted old (Some new)), ok2)]"
      by blast
    have "\<forall>x \<in> set (new_calls w3 w4). \<exists>it k. fst x = PutItem it \<or> fst x = UpdateItem k it"
      using update_dynamodb_record_result[OF u] by (auto simp: new_calls_def)
    then have False
      using \<open>(CreateUsagePlan cp, False) \<in> set (new_calls w w')\<close> c
        zip_calls_are_updates[of "CreateUsagePlan cp" False new "stages_to_associate md" oks]
      by fastforce
    then show ?thesis ..
  qed
qed

theorem failed_creation_leaves_record_witness:
  "(CreateUsagePlan \<lparr>cp_name = PStr ''Basic Tier'', cp_throttle = Some (50, 100),
                      cp_quota = Some (10000, PStr ''MONTH'')\<rparr>, False)
     \<in> set (new_calls (after_deletion (\<lambda>n. n = 2))
               (snd (recovery_lambda_handler deletion_event (after_deletion (\<lambda>n. n = 2)))))
   \<and> table (snd (recovery_lambda_handler deletion_event (after_deletion (\<lambda>n. n = 2))))
       = [basic_record]
   \<and> fst (recovery_lambda_handler deletion_event (after_deletion (\<lambda>n. n = 2)))
       = Inr (Some \<lparr>statusCode = 500, body = FailedToRecreate ''old1''\<rparr>)"
proof -
  have c: "(CreateUsagePlan \<lparr>cp_name = PStr ''Basic Tier'', cp_throttle = Some (50, 100),
                      cp_quota = Some (10000, PStr ''MONTH'')\<rparr>, False)
     \<in> set (new_calls (after_deletion (\<lambda>n. n = 2))
               (snd (recovery_lambda_handler deletion_event (after_deletion (\<lambda>n. n = 2)))))"
    by code_simp
  have t: "table (after_deletion (\<lambda>n. n = 2)) = [basic_record]"
    by (simp add: after_deletion_def)
  have u: "usagePlanId deletion_event = Some ''old1''"
    by (simp add: deletion_event_def)
  show ?thesis
    using failed_creation_leaves_record[OF prod.collapse[symmetric] c] c t u by auto
qed

lemma stages_of_new_metadata:
  "map_of (new_metadata_of old new ts md) ''stages'' = map_of md ''stages''"
  by (simp add: map_of_new_metadata)

lemma stages_of_deletion_marks:
  "map_of (assign_all (deletion_marks new ts) it) ''stages'' = map_of it ''stages''"
  by (simp add: map_of_deletion_marks)

lemma marked_key:
  "key_of (assign_all (deletion_marks new ts)
             (case lookup_item old tbl of None \<Rightarrow> [(''plan_id'', PStr old)] | Some it \<Rightarrow> it))
     = Some old"
proof (cases "lookup_item old tbl")
  case None
  then show ?thesis by (simp add: key_of_deletion_marks) (simp add: key_of_def)
next
  case (Some it)
  then show ?thesis by (simp add: key_of_deletion_marks lookup_item_key)
qed

lemma record_writes:
  assumes u: "update_dynamodb_record old new md w3 = (b, w4)"
  shows "(new_calls w3 w4 = [(PutItem (new_metadata_of old new (now w3) md), False)]
            \<and> table w4 = table w3 \<and> \<not> b)
     \<or> (new_calls w3 w4 = [(PutItem (new_metadata_of old new (now w3) md), True),
                            (UpdateItem old (deletion_marks new (now w3)), False)]
          \<and> table w4 = store_item new (new_metadata_of old new (now w3) md) (table w3) \<and> \<not> b)
     \<or> (new_calls w3 w4 = [(PutItem (new_metadata_of old new (now w3) md), True),
                            (UpdateItem old (deletion_marks new (now w3)), True)]
          \<and> table w4 = store_item old
              (assign_all (deletion_marks new (now w3))
                 (case lookup_item old
                         (store_item new (new_metadata_of old new (now w3) md) (table w3)) of
                    None \<Rightarrow> [(''plan_id'', PStr old)] | Some it \<Rightarrow> it))
              (store_item new (new_metadata_of old new (now w3) md) (table w3)) \<and> b)"
  using update_dynamodb_record_result[OF u] by (auto simp: new_calls_def)

text \<open>
  C2 (as the code has it). A run that recreates the plan sends one association request
  for every stage read from the old record, in order and whatever the earlier requests
  answered; and the one record it puts under the new key carries the \<open>stages\<close> of the old
  record, the originally desired value, not the stages that were associated.
\<close>

theorem recreated_record_keeps_desired_stages:
  assumes run: "recovery_lambda_handler ev w
                  = (Inr (Some \<lparr>statusCode = 200, body = RecreatedSuccessfully old new\<rparr>), w')"
  shows "\<exists>md. lookup_item old (table w) = Some md
     \<and> map fst (filter (is_update_call \<circ> fst) (new_calls w w'))
         = map (association_call new) (stages_to_associate md)
     \<and> (\<exists>ok. (PutItem (new_metadata_of old new (now w) md), ok) \<in> set (new_calls w w'))
     \<and> (\<forall>it ok. (PutItem it, ok) \<in> set (new_calls w w') \<longrightarrow> map_of it ''stages'' = map_of md ''stages'')
     \<and> ((PutItem (new_metadata_of old new (now w) md), True) \<in> set (new_calls w w')
          \<longrightarrow> record_attr (table w') new ''stages'' = map_of md ''stages'')"
proof -
  from recovery_success_calls[OF run] obtain md w3 b w4 ok1 cp oks ok2 where
    md: "lookup_item old (table w) = Some md"
    and f3: "table w3 = table w" "now w3 = now w"
    and u: "update_dynamodb_record old new md w3 = (b, w4)"
    and t: "table w' = table w4"
    and l: "length oks = length (stages_to_associate md)"
    and c: "new_calls w w' =
              (Publish (UsagePlanDeleted old None), ok1) # (CreateUsagePlan cp, True)
              # zip (map (association_call new) (stages_to_associate md)) oks
              @ new_calls w3 w4 @ [(Publish (UsagePlanDeleted old (Some new)), ok2)]"
    by blast
  let ?nm = "new_metadata_of old new (now w) md"
  let ?marks = "deletion_marks new (now w)"
  let ?T = "store_item new ?nm (table w)"
  let ?T' = "store_item old
              (assign_all ?marks (case lookup_item old ?T of
                                   None \<Rightarrow> [(''plan_id'', PStr old)] | Some it \<Rightarrow> it)) ?T"
  note sh = record_writes[OF u, unfolded f3]
  have inner: "(x, ok) \<in> set (new_calls w3 w4)"
    if "(x, ok) \<in> set (new_calls w w')" "\<not> is_update_call x" "\<forall>n. x \<noteq> Publish n"
       "\<forall>p. x \<noteq> CreateUsagePlan p" for x ok
    using that c zip_calls_are_updates[of x ok new "stages_to_associate md" oks] by auto
  have upd: "map fst (filter (is_update_call \<circ> fst) (new_calls w w'))
         = map (association_call new) (stages_to_associate md)"
    using sh c filter_updates_zip[OF l, of new] by auto
  have put: "\<exists>ok. (PutItem ?nm, ok) \<in> set (new_calls w w')"
    using sh c by auto
  have only: "it = ?nm" if "(PutItem it, ok) \<in> set (new_calls w w')" for it ok
    using inner[OF that] sh by auto
  have stored: "record_attr (table w') new ''stages'' = map_of md ''stages''"
    if "(PutItem ?nm, True) \<in> set (new_calls w w')"
  proof -
    have "(PutItem ?nm, True) \<in> set (new_calls w3 w4)"
      using inner[OF that] by simp
    then have "table w' = ?T \<or> table w' = ?T'"
      using sh t by auto
    then show ?thesis
    proof
      assume "table w' = ?T"
      then show ?thesis
        by (simp add: record_attr_def lookup_store_item key_of_new_metadata stages_of_new_metadata)
    next
      assume T': "table w' = ?T'"
      show ?thesis
      proof (cases "new = old")
        case True
        then show ?thesis using T'
          by (simp add: record_attr_def lookup_store_item key_of_new_metadata
                key_of_deletion_marks stages_of_deletion_marks stages_of_new_metadata)
      next
        case False
        then show ?thesis using T'
          by (simp add: record_attr_def lookup_store_item key_of_new_metadata marked_key
                stages_of_new_metadata)
      qed
    qed
  qed
  have "map_of it ''stages'' = map_of md ''stages''" if "(PutItem it, ok) \<in> set (new_calls w w')" for it ok
    using only[OF that] stages_of_new_metadata by simp
  then show ?thesis using md upd put stored by blast
qed

theorem recreated_record_keeps_desired_stages_witness:
  "fst (recovery_lambda_handler deletion_event (after_deletion (\<lambda>n. n = 4)))
     = Inr (Some \<lparr>statusCode = 200, body = RecreatedSuccessfully ''old1'' ''new1''\<rparr>)
   \<and> map fst (filter (is_update_call \<circ> fst)
         (new_calls (after_deletion (\<lambda>n. n = 4))
            (snd (recovery_lambda_handler deletion_event (after_deletion (\<lambda>n. n = 4))))))
       = [association_call ''new1'' (''api1'', ''dev''), association_call ''new1'' (''api1'', ''prod'')]
   \<and> record_attr (table (snd (recovery_lambda_handler deletion_event (after_deletion (\<lambda>n. n = 4)))))
        ''new1'' ''stages'' = Some (PList [PStr dev_arn, PStr prod_arn])"
proof -
  let ?W = "after_deletion (\<lambda>n. n = 4)"
  let ?R = "recovery_lambda_handler deletion_event ?W"
  have f: "fst ?R = Inr (Some \<lparr>statusCode = 200, body = RecreatedSuccessfully ''old1'' ''new1''\<rparr>)"
    by code_simp
  then have run: "?R = (Inr (Some \<lparr>statusCode = 200,
                      body = RecreatedSuccessfully ''old1'' ''new1''\<rparr>), snd ?R)"
    by (metis prod.collapse)
  have l: "lookup_item ''old1'' (table ?W) = Some basic_record"
    by code_simp
  have s: "stages_to_associate basic_record = [(''api1'', ''dev''), (''api1'', ''prod'')]"
    by code_simp
  have m: "map_of basic_record ''stages'' = Some (PList [PStr dev_arn, PStr prod_arn])"
    by code_simp
  have p: "(PutItem (new_metadata_of ''old1'' ''new1'' (now ?W) basic_record), True)
             \<in> set (new_calls ?W (snd ?R))"
    by code_simp
  from recreated_record_keeps_desired_stages[OF run] l s m p f show ?thesis
    by auto
qed

text \<open>
  C2 as stated fails: of the two stages of the example record the second association
  fails, the live plan lists one stage, and the new record names both.
\<close>

theorem recreated_record_stages_counterexample:
  "record_attr (table (snd (recovery_lambda_handler deletion_event (after_deletion (\<lambda>n. n = 4)))))
        ''new1'' ''stages'' = Some (PList [PStr dev_arn, PStr prod_arn])
   \<and> map_option (api_stages_arns (Some ''us-east-1''))
        (lookup_plan ''new1''
           (plans (snd (recovery_lambda_handler deletion_event (after_deletion (\<lambda>n. n = 4))))))
       = Some [dev_arn]
   \<and> \<not> stages_match_associated
          (snd (recovery_lambda_handler deletion_event (after_deletion (\<lambda>n. n = 4)))) ''new1''"
  by code_simp




text \<open>
  C3 at the recovery handler. The first delivery of the deletion event recreates the plan
  and marks the record deleted; a second delivery of the same event finds that record,
  does not look at the mark, and creates one more live plan and one more record.
\<close>

theorem repeated_deletion_event_recreates_again:
  "record_attr
     (table (snd (recovery_lambda_handler deletion_event (after_deletion (\<lambda>n. False)))))
     ''old1'' ''deleted'' = Some (PBool True)
   \<and> map ap_id (plans (snd (recovery_lambda_handler deletion_event (after_deletion (\<lambda>n. False)))))
       = [''new1'']
   \<and> fst (recovery_lambda_handler deletion_event
            (snd (recovery_lambda_handler deletion_event (after_deletion (\<lambda>n. False)))))
       = Inr (Some \<lparr>statusCode = 200, body = RecreatedSuccessfully ''old1'' ''new2''\<rparr>)
   \<and> map ap_id (plans (snd (recovery_lambda_handler deletion_event
            (snd (recovery_lambda_handler deletion_event (after_deletion (\<lambda>n. False)))))))
       = [''new1'', ''new2'']
   \<and> map key_of (table (snd (recovery_lambda_handler deletion_event
            (snd (recovery_lambda_handler deletion_event (after_deletion (\<lambda>n. False)))))))
       = [Some ''old1'', Some ''new1'', Some ''new2'']"
  by code_simp

subsection \<open>config\_compliance: the comparisons\<close>

lemma py_int_default: "py_int (dict_get db k (PNum 0)) = limit_or_zero db k"
  by (simp add: dict_get_def limit_or_zero_def py_trunc_def split: option.splits)



lemma validate_raises_iff:
  "(\<exists>e. validate_plan_configuration r db p = Inl e) \<longleftrightarrow>
     (\<exists>e. limit_or_zero db ''rate_limit'' = Inl e) \<or> (\<exists>e. limit_or_zero db ''burst_limit'' = Inl e)
     \<or> (\<exists>e. limit_or_zero db ''quota_limit'' = Inl e)
     \<or> (\<exists>e. db_stages_set (dict_get db ''stages'' (PList [])) = Inl e)"
  by (auto simp: validate_plan_configuration_def py_int_default split: sum.splits)

lemma validate_empty_iff:
  "validate_plan_configuration r db p = Inr [] \<longleftrightarrow> four_comparisons_equal r db p"
  by (auto simp: validate_plan_configuration_def py_int_default stage_violations_def
        four_comparisons_equal_def split: sum.splits if_splits)



subsection \<open>config\_compliance: the resolver\<close>




lemma get_usage_plans_result:
  "get_usage_plans w = (r, w1) \<Longrightarrow>
   w1 = w\<lparr>step := Suc (step w)\<rparr>
   \<and> r = (if faults w (step w) then Inl service_error else Inr (plans w))"
  by (auto simp: get_usage_plans_def tick_def split: if_splits)

lemma get_usage_plan_result:
  "get_usage_plan pid w = (r, w1) \<Longrightarrow>
   w1 = w\<lparr>step := Suc (step w)\<rparr>
   \<and> (case r of
         Inl e \<Rightarrow> faults w (step w) \<or> lookup_plan pid (plans w) = None
       | Inr p \<Rightarrow> \<not> faults w (step w) \<and> lookup_plan pid (plans w) = Some p)"
  by (auto simp: get_usage_plan_def tick_def split: if_splits option.splits)

lemma get_item_exact:
  "get_item k w = (r, w1) \<Longrightarrow>
   w1 = w\<lparr>step := Suc (step w)\<rparr>
   \<and> r = (if faults w (step w) then Inl service_error else Inr (lookup_item k (table w)))"
  by (auto simp: get_item_def tick_def split: if_splits)


lemma scan_for_match_frame:
  "scan_for_match db cands w = (b, w') \<Longrightarrow>
   table w' = table w \<and> plans w' = plans w \<and> calls w' = calls w \<and> faults w' = faults w
   \<and> aws_region w' = aws_region w"
proof (induction cands arbitrary: w)
  case Nil
  then show ?case by simp
next
  case (Cons c rest)
  obtain nm pid where c: "c = (nm, pid)" by (cases c)
  obtain r w1 where g: "get_usage_plan pid w = (r, w1)" by (cases "get_usage_plan pid w")
  note gr = get_usage_plan_result[OF g]
  show ?case using Cons.prems Cons.IH[of w1] g gr c
    by (cases r) (auto split: if_splits)
qed




subsection \<open>config\_compliance: the evaluation\<close>

lemma ct_result_for [simp]: "ComplianceType (result_for ci c a) = c"
  by (simp add: result_for_def create_evaluation_result_def)

lemma ct_result_from_violations:
  "ComplianceType (result_from_violations ci n) = (if n = 0 then COMPLIANT else NON_COMPLIANT)"
  by (simp add: result_from_violations_def)

lemma ct_errors [simp]:
  "ComplianceType (error_getting_plan ci e) = NON_COMPLIANT"
  "ComplianceType (error_evaluating ci e) = NON_COMPLIANT"
  "ComplianceType (stage_without_record ci x) = NON_COMPLIANT"
  by (simp_all add: error_getting_plan_def error_evaluating_def stage_without_record_def
        split: option.splits)

lemma ct_validate_and_classify:
  "ComplianceType (validate_and_classify ci db p w)
     = (if four_comparisons_equal (aws_region w) db p then COMPLIANT else NON_COMPLIANT)"
proof (cases "validate_plan_configuration (aws_region w) db p")
  case (Inl e)
  then have "\<not> four_comparisons_equal (aws_region w) db p"
    using validate_empty_iff[of "aws_region w" db p] by simp
  then show ?thesis using Inl by (simp add: validate_and_classify_def)
next
  case (Inr vs)
  then show ?thesis using validate_empty_iff[of "aws_region w" db p]
    by (simp add: validate_and_classify_def ct_result_from_violations)
qed

lemma lookup_plan_mem: "lookup_plan pid ps = Some p \<Longrightarrow> p \<in> set ps \<and> ap_id p = pid"
  by (auto simp: lookup_plan_def find_Some_iff)

lemma lookup_item_mem: "lookup_item k tbl = Some it \<Longrightarrow> it \<in> set tbl"
  by (auto simp: lookup_item_def find_Some_iff)

lemma first_item_by_settings_some:
  "first_item_by_settings items p = Inr (Some db) \<Longrightarrow> db \<in> set items \<and> plans_match_by_config db p"
  by (induction items) (auto simp: plans_match_by_config_def split: sum.splits bool.splits)


lemma scan_result:
  "scan w = (r, w1) \<Longrightarrow>
   w1 = w\<lparr>step := Suc (step w)\<rparr>
   \<and> r = (if faults w (step w) then Inl service_error else Inr (table w))"
  by (auto simp: scan_def tick_def split: if_splits)

lemma delete_usage_plan_result:
  "delete_usage_plan pid w = (r, w1) \<Longrightarrow>
   table w1 = table w \<and> aws_region w1 = aws_region w
   \<and> calls w1 = calls w @ [(DeleteUsagePlan pid,
                               \<not> faults w (step w) \<and> lookup_plan pid (plans w) \<noteq> None)]
   \<and> plans w1 = (if \<not> faults w (step w) \<and> lookup_plan pid (plans w) \<noteq> None
                  then remove_plan pid (plans w) else plans w)
   \<and> ((\<exists>e. r = Inl e) \<longleftrightarrow> \<not> (\<not> faults w (step w) \<and> lookup_plan pid (plans w) \<noteq> None))"
  by (auto simp: delete_usage_plan_def tick_def logged_def split: if_splits option.splits)

lemma delete_orphan_result:
  "delete_orphan ci p w = (ev, w1) \<Longrightarrow>
   ComplianceType ev = NON_COMPLIANT \<and> table w1 = table w
   \<and> calls w1 = calls w @ [(DeleteUsagePlan (resourceId ci),
                               \<not> faults w (step w) \<and> lookup_plan (resourceId ci) (plans w) \<noteq> None)]
   \<and> plans w1 = (if \<not> faults w (step w) \<and> lookup_plan (resourceId ci) (plans w) \<noteq> None
                  then remove_plan (resourceId ci) (plans w) else plans w)"
proof -
  assume a: "delete_orphan ci p w = (ev, w1)"
  obtain r w2 where d: "delete_usage_plan (resourceId ci) w = (r, w2)"
    by (cases "delete_usage_plan (resourceId ci) w")
  from a d have "w1 = w2 \<and> ComplianceType ev = NON_COMPLIANT"
    by (cases r) (auto simp: delete_orphan_def)
  then show ?thesis using delete_usage_plan_result[OF d] by simp
qed

text \<open>The usage plan branch, case by case.\<close>

lemma evaluate_usage_plan_cases:
  assumes run: "evaluate_usage_plan ci w = (ev, w')"
  shows "table w' = table w"
    and "faults w (step w) \<or> lookup_plan (resourceId ci) (plans w) = None
           \<Longrightarrow> ComplianceType ev = NON_COMPLIANT \<and> new_calls w w' = [] \<and> plans w' = plans w"
    and "\<not> faults w (step w) \<Longrightarrow> lookup_plan (resourceId ci) (plans w) = Some p
           \<Longrightarrow> faults w (Suc (step w))
           \<Longrightarrow> ComplianceType ev = NON_COMPLIANT \<and> new_calls w w' = [] \<and> plans w' = plans w"
    and "\<not> faults w (step w) \<Longrightarrow> lookup_plan (resourceId ci) (plans w) = Some p
           \<Longrightarrow> \<not> faults w (Suc (step w)) \<Longrightarrow> lookup_item (ap_name p) (table w) = Some db
           \<Longrightarrow> ComplianceType ev
                 = (if four_comparisons_equal (aws_region w) db p then COMPLIANT else NON_COMPLIANT)
               \<and> new_calls w w' = [] \<and> plans w' = plans w"
    and "\<not> faults w (step w) \<Longrightarrow> lookup_plan (resourceId ci) (plans w) = Some p
           \<Longrightarrow> \<not> faults w (Suc (step w)) \<Longrightarrow> lookup_item (ap_name p) (table w) = None
           \<Longrightarrow> faults w (Suc (Suc (step w)))
           \<Longrightarrow> ComplianceType ev = NON_COMPLIANT \<and> new_calls w w' = [] \<and> plans w' = plans w"
    and "\<not> faults w (step w) \<Longrightarrow> lookup_plan (resourceId ci) (plans w) = Some p
           \<Longrightarrow> \<not> faults w (Suc (step w)) \<Longrightarrow> lookup_item (ap_name p) (table w) = None
           \<Longrightarrow> \<not> faults w (Suc (Suc (step w)))
           \<Longrightarrow> first_item_by_settings (table w) p = Inl e
           \<Longrightarrow> ComplianceType ev = NON_COMPLIANT \<and> new_calls w w' = [] \<and> plans w' = plans w"
    and "\<not> faults w (step w) \<Longrightarrow> lookup_plan (resourceId ci) (plans w) = Some p
           \<Longrightarrow> \<not> faults w (Suc (step w)) \<Longrightarrow> lookup_item (ap_name p) (table w) = None
           \<Longrightarrow> \<not> faults w (Suc (Suc (step w)))
           \<Longrightarrow> first_item_by_settings (table w) p = Inr (Some db) \<Longrightarrow> db \<noteq> []
           \<Longrightarrow> ComplianceType ev
                 = (if four_comparisons_equal (aws_region w) db p then COMPLIANT else NON_COMPLIANT)
               \<and> new_calls w w' = [] \<and> plans w' = plans w"
    and "\<not> faults w (step w) \<Longrightarrow> lookup_plan (resourceId ci) (plans w) = Some p
           \<Longrightarrow> \<not> faults w (Suc (step w)) \<Longrightarrow> lookup_item (ap_name p) (table w) = None
           \<Longrightarrow> \<not> faults w (Suc (Suc (step w)))
           \<Longrightarrow> first_item_by_settings (table w) p = Inr None
                 \<or> first_item_by_settings (table w) p = Inr (Some [])
           \<Longrightarrow> ComplianceType ev = NON_COMPLIANT
               \<and> new_calls w w' = [(DeleteUsagePlan (resourceId ci), \<not> faults w (Suc (Suc (Suc (step w)))))]
               \<and> plans w' = (if \<not> faults w (Suc (Suc (Suc (step w)))) then remove_plan (resourceId ci) (plans w)
                              else plans w)"
proof -
  obtain g w1 where g: "get_usage_plan (resourceId ci) w = (g, w1)"
    by (cases "get_usage_plan (resourceId ci) w")
  note gr = get_usage_plan_result[OF g]
  have w1: "w1 = w\<lparr>step := Suc (step w)\<rparr>" using gr by simp
  show A: "ComplianceType ev = NON_COMPLIANT \<and> new_calls w w' = [] \<and> plans w' = plans w"
    if "faults w (step w) \<or> lookup_plan (resourceId ci) (plans w) = None"
    using that run g gr
    by (cases g) (auto simp: evaluate_usage_plan_def new_calls_def)
  have tA: "table w' = table w" if "faults w (step w) \<or> lookup_plan (resourceId ci) (plans w) = None"
    using that run g gr
    by (cases g) (auto simp: evaluate_usage_plan_def)
  {
    fix p assume nf: "\<not> faults w (step w)" and lp: "lookup_plan (resourceId ci) (plans w) = Some p"
    then have gp: "g = Inr p" using gr by (cases g) auto
    obtain i w2 where i: "get_item (ap_name p) w1 = (i, w2)" by (cases "get_item (ap_name p) w1")
    note ir = get_item_exact[OF i, unfolded w1, simplified]
    have w2: "w2 = w\<lparr>step := Suc (Suc (step w))\<rparr>" using ir by simp
    have B: "ComplianceType ev = NON_COMPLIANT \<and> new_calls w w' = [] \<and> plans w' = plans w \<and> table w' = table w"
      if "faults w (Suc (step w))"
      using that run g gp i ir
      by (auto simp: evaluate_usage_plan_def new_calls_def)
    have C: "ComplianceType ev
                 = (if four_comparisons_equal (aws_region w) db p then COMPLIANT else NON_COMPLIANT)
               \<and> new_calls w w' = [] \<and> plans w' = plans w \<and> table w' = table w"
      if "\<not> faults w (Suc (step w))" "lookup_item (ap_name p) (table w) = Some db" for db
      using that run g gp i ir ct_validate_and_classify[of ci db p w2]
      by (auto simp: evaluate_usage_plan_def new_calls_def)
    obtain s w3 where s: "scan w2 = (s, w3)" by (cases "scan w2")
    note sr = scan_result[OF s, unfolded w2, simplified]
    have w3: "w3 = w\<lparr>step := Suc (Suc (Suc (step w)))\<rparr>" using sr by simp
    have D: "ComplianceType ev = NON_COMPLIANT \<and> new_calls w w' = [] \<and> plans w' = plans w \<and> table w' = table w"
      if "\<not> faults w (Suc (step w))" "lookup_item (ap_name p) (table w) = None"
         "faults w (Suc (Suc (step w)))"
      using that run g gp i ir s sr
      by (auto simp: evaluate_usage_plan_def new_calls_def)
    have E: "ComplianceType ev = NON_COMPLIANT \<and> new_calls w w' = [] \<and> plans w' = plans w \<and> table w' = table w"
      if "\<not> faults w (Suc (step w))" "lookup_item (ap_name p) (table w) = None"
         "\<not> faults w (Suc (Suc (step w)))" "first_item_by_settings (table w) p = Inl e" for e
      using that run g gp i ir s sr
      by (auto simp: evaluate_usage_plan_def new_calls_def)
    have F: "ComplianceType ev
                 = (if four_comparisons_equal (aws_region w) db p then COMPLIANT else NON_COMPLIANT)
               \<and> new_calls w w' = [] \<and> plans w' = plans w \<and> table w' = table w"
      if "\<not> faults w (Suc (step w))" "lookup_item (ap_name p) (table w) = None"
         "\<not> faults w (Suc (Suc (step w)))" "first_item_by_settings (table w) p = Inr (Some db)"
         "db \<noteq> []" for db
      using that run g gp i ir s sr ct_validate_and_classify[of ci db p w3]
      by (auto simp: evaluate_usage_plan_def new_calls_def)
    have G: "ComplianceType ev = NON_COMPLIANT
               \<and> new_calls w w' = [(DeleteUsagePlan (resourceId ci), \<not> faults w (Suc (Suc (Suc (step w)))))]
               \<and> plans w' = (if \<not> faults w (Suc (Suc (Suc (step w)))) then remove_plan (resourceId ci) (plans w)
                              else plans w) \<and> table w' = table w"
      if "\<not> faults w (Suc (step w))" "lookup_item (ap_name p) (table w) = None"
         "\<not> faults w (Suc (Suc (step w)))"
         "first_item_by_settings (table w) p = Inr None
                 \<or> first_item_by_settings (table w) p = Inr (Some [])"
    proof -
      have "delete_orphan ci p w3 = (ev, w')"
        using that run g gp i ir s sr by (auto simp: evaluate_usage_plan_def)
      from delete_orphan_result[OF this] lp show ?thesis
        by (simp add: w3 new_calls_def)
    qed
    note B C D E F G
  }
  note cases = this
  show "ComplianceType ev = NON_COMPLIANT \<and> new_calls w w' = [] \<and> plans w' = plans w"
    if "\<not> faults w (step w)" "lookup_plan (resourceId ci) (plans w) = Some p" "faults w (Suc (step w))"
    using cases(1)[OF that] by simp
  show "ComplianceType ev
                 = (if four_comparisons_equal (aws_region w) db p then COMPLIANT else NON_COMPLIANT)
               \<and> new_calls w w' = [] \<and> plans w' = plans w"
    if "\<not> faults w (step w)" "lookup_plan (resourceId ci) (plans w) = Some p"
       "\<not> faults w (Suc (step w))" "lookup_item (ap_name p) (table w) = Some db"
    using cases(2)[OF that] by simp
  show "ComplianceType ev = NON_COMPLIANT \<and> new_calls w w' = [] \<and> plans w' = plans w"
    if "\<not> faults w (step w)" "lookup_plan (resourceId ci) (plans w) = Some p"
       "\<not> faults w (Suc (step w))" "lookup_item (ap_name p) (table w) = None"
       "faults w (Suc (Suc (step w)))"
    using cases(3)[OF that] by simp
  show "ComplianceType ev = NON_COMPLIANT \<and> new_calls w w' = [] \<and> plans w' = plans w"
    if "\<not> faults w (step w)" "lookup_plan (resourceId ci) (plans w) = Some p"
       "\<not> faults w (Suc (step w))" "lookup_item (ap_name p) (table w) = None"
       "\<not> faults w (Suc (Suc (step w)))" "first_item_by_settings (table w) p = Inl e"
    using cases(4)[OF that] by simp
  show "ComplianceType ev
                 = (if four_comparisons_equal (aws_region w) db p then COMPLIANT else NON_COMPLIANT)
               \<and> new_calls w w' = [] \<and> plans w' = plans w"
    if "\<not> faults w (step w)" "lookup_plan (resourceId ci) (plans w) = Some p"
       "\<not> faults w (Suc (step w))" "lookup_item (ap_name p) (table w) = None"
       "\<not> faults w (Suc (Suc (step w)))" "first_item_by_settings (table w) p = Inr (Some db)"
       "db \<noteq> []"
    using cases(5)[OF that] by simp
  show "ComplianceType ev = NON_COMPLIANT
               \<and> new_calls w w' = [(DeleteUsagePlan (resourceId ci), \<not> faults w (Suc (Suc (Suc (step w)))))]
               \<and> plans w' = (if \<not> faults w (Suc (Suc (Suc (step w)))) then remove_plan (resourceId ci) (plans w)
                              else plans w)"
    if "\<not> faults w (step w)" "lookup_plan (resourceId ci) (plans w) = Some p"
       "\<not> faults w (Suc (step w))" "lookup_item (ap_name p) (table w) = None"
       "\<not> faults w (Suc (Suc (step w)))"
       "first_item_by_settings (table w) p = Inr None
                 \<or> first_item_by_settings (table w) p = Inr (Some [])"
    using cases(6)[OF that] by simp
  show "table w' = table w"
  proof (cases "faults w (step w) \<or> lookup_plan (resourceId ci) (plans w) = None")
    case True
    then show ?thesis by (rule tA)
  next
    case False
    then obtain p where p: "\<not> faults w (step w)" "lookup_plan (resourceId ci) (plans w) = Some p"
      by auto
    note c = cases[OF p]
    show ?thesis
    proof (cases "faults w (Suc (step w))")
      case True
      then show ?thesis using c(1) by simp
    next
      case nf1: False
      show ?thesis
      proof (cases "lookup_item (ap_name p) (table w)")
        case (Some db)
        then show ?thesis using c(2)[OF nf1] by simp
      next
        case None
        show ?thesis
        proof (cases "faults w (Suc (Suc (step w)))")
          case True
          then show ?thesis using c(3)[OF nf1 None] by simp
        next
          case nf2: False
          show ?thesis
          proof (cases "first_item_by_settings (table w) p")
            case (Inl e)
            then show ?thesis using c(4)[OF nf1 None nf2] by simp
          next
            case (Inr m)
            show ?thesis
            proof (cases "m = None \<or> m = Some []")
              case True
              then show ?thesis using c(6)[OF nf1 None nf2] Inr by auto
            next
              case False
              then obtain db where "m = Some db" "db \<noteq> []" by auto
              then show ?thesis using c(5)[OF nf1 None nf2] Inr by simp
            qed
          qed
        qed
      qed
    qed
  qed
qed

lemma get_stage_reads:
  "get_stage a s w = (r, w1) \<Longrightarrow> w1 = w\<lparr>step := Suc (step w)\<rparr>
     \<and> ((\<exists>u. r = Inr u) \<longleftrightarrow> \<not> faults w (step w) \<and> (a, s) \<in> set (live_stages w))"
  by (auto simp: get_stage_def tick_def split: if_splits)

lemma verify_stage_exists_reads:
  assumes "verify_stage_exists arn w = (b, w1)"
  shows "\<exists>k. w1 = w\<lparr>step := k\<rparr>"
    and "b \<Longrightarrow> \<exists>a s. py_nth (split_on (CHR ''/'') arn) (- 3) = Inr a
                       \<and> py_nth (split_on (CHR ''/'') arn) (- 1) = Inr s
                       \<and> w1 = w\<lparr>step := Suc (step w)\<rparr> \<and> \<not> faults w (step w)
                       \<and> (a, s) \<in> set (live_stages w)"
proof -
  show "\<exists>k. w1 = w\<lparr>step := k\<rparr>"
  proof (cases "py_nth (split_on (CHR ''/'') arn) (- 3)")
    case (Inl e)
    then have "w1 = w" using assms by (simp add: verify_stage_exists_def)
    then show ?thesis by (intro exI[of _ "step w"]) simp
  next
    case a: (Inr a)
    show ?thesis
    proof (cases "py_nth (split_on (CHR ''/'') arn) (- 1)")
      case (Inl e)
      then have "w1 = w" using assms a by (simp add: verify_stage_exists_def)
      then show ?thesis by (intro exI[of _ "step w"]) simp
    next
      case s: (Inr s)
      obtain r w2 where g: "get_stage a s w = (r, w2)" by (cases "get_stage a s w")
      then have "w1 = w2" using assms a s by (cases r) (auto simp: verify_stage_exists_def)
      then show ?thesis using get_stage_reads[OF g] by blast
    qed
  qed
  show "\<exists>a s. py_nth (split_on (CHR ''/'') arn) (- 3) = Inr a
                       \<and> py_nth (split_on (CHR ''/'') arn) (- 1) = Inr s
                       \<and> w1 = w\<lparr>step := Suc (step w)\<rparr> \<and> \<not> faults w (step w)
                       \<and> (a, s) \<in> set (live_stages w)" if b
  proof (cases "py_nth (split_on (CHR ''/'') arn) (- 3)")
    case (Inl e)
    then show ?thesis using assms that by (simp add: verify_stage_exists_def)
  next
    case a: (Inr a)
    show ?thesis
    proof (cases "py_nth (split_on (CHR ''/'') arn) (- 1)")
      case (Inl e)
      then show ?thesis using assms a that by (simp add: verify_stage_exists_def)
    next
      case s: (Inr s)
      obtain r w2 where g: "get_stage a s w = (r, w2)" by (cases "get_stage a s w")
      then have "w1 = w2 \<and> (\<exists>u. r = Inr u)" using assms a s that
        by (cases r) (auto simp: verify_stage_exists_def)
      then show ?thesis using get_stage_reads[OF g] a s by auto
    qed
  qed
qed

lemma first_with_stage_mem:
  "first_with_stage arn items = Inr (Some it) \<Longrightarrow> it \<in> set items \<and> dict_has it ''plan_id''"
  by (induction items)
     (auto simp: dict_index_def dict_has_def split: if_splits sum.splits bool.splits option.splits)

lemma find_usage_plan_for_stage_reads:
  assumes "find_usage_plan_for_stage arn w = (r, w1)"
  shows "w1 = w\<lparr>step := Suc (step w)\<rparr>"
    and "r = Some db \<Longrightarrow> db \<in> set (table w) \<and> dict_has db ''plan_id''"
    and "\<not> faults w (step w) \<Longrightarrow> first_with_stage arn (table w) = Inr x \<Longrightarrow> r = x"
proof -
  obtain s w2 where s: "scan w = (s, w2)" by (cases "scan w")
  note sr = scan_result[OF s]
  show "w1 = w\<lparr>step := Suc (step w)\<rparr>"
    using assms s sr
    by (auto simp: find_usage_plan_for_stage_def split: if_splits sum.splits)
  show "db \<in> set (table w) \<and> dict_has db ''plan_id''" if "r = Some db"
    using assms s sr that first_with_stage_mem[of arn "table w" db]
    by (auto simp: find_usage_plan_for_stage_def split: if_splits sum.splits)
  show "r = x" if "\<not> faults w (step w)" "first_with_stage arn (table w) = Inr x"
    using assms s sr that
    by (auto simp: find_usage_plan_for_stage_def split: if_splits sum.splits)
qed

lemma stage_plan_violations_result:
  assumes "stage_plan_violations db pid w = (n, w1)"
  shows "w1 = w\<lparr>step := Suc (step w)\<rparr>"
    and "n = 0 \<Longrightarrow> \<exists>p. lookup_plan pid (plans w) = Some p \<and> four_comparisons_equal (aws_region w) db p"
    and "\<not> faults w (step w) \<Longrightarrow> lookup_plan pid (plans w) = Some p \<Longrightarrow> dict_has db ''plan_id''
           \<Longrightarrow> (n = 0 \<longleftrightarrow> four_comparisons_equal (aws_region w) db p)"
proof -
  obtain g w2 where g: "get_usage_plan pid w = (g, w2)" by (cases "get_usage_plan pid w")
  note gr = get_usage_plan_result[OF g]
  have w2: "w2 = w\<lparr>step := Suc (step w)\<rparr>" using gr by simp
  show "w1 = w\<lparr>step := Suc (step w)\<rparr>"
    using assms g gr
    by (cases g) (auto simp: stage_plan_violations_def split: sum.splits)
  show "\<exists>p. lookup_plan pid (plans w) = Some p \<and> four_comparisons_equal (aws_region w) db p"
    if "n = 0"
  proof (cases g)
    case (Inl e)
    then show ?thesis using assms g that by (simp add: stage_plan_violations_def)
  next
    case (Inr p)
    then have lp: "lookup_plan pid (plans w) = Some p" using gr by simp
    have "validate_plan_configuration (aws_region w) db p = Inr []"
      using assms g Inr that w2
      by (auto simp: stage_plan_violations_def split: sum.splits)
    then show ?thesis using lp validate_empty_iff by blast
  qed
  show "n = 0 \<longleftrightarrow> four_comparisons_equal (aws_region w) db p"
    if h: "\<not> faults w (step w)" "lookup_plan pid (plans w) = Some p" "dict_has db ''plan_id''"
  proof -
    have gp: "g = Inr p" using gr h by (cases g) auto
    obtain k where k: "dict_index db ''plan_id'' = Inr k"
      using h(3) by (auto simp: dict_has_def dict_index_def)
    show ?thesis
    proof (cases "validate_plan_configuration (aws_region w) db p")
      case (Inl e)
      then have "\<not> four_comparisons_equal (aws_region w) db p"
        using validate_empty_iff[of "aws_region w" db p] by simp
      then show ?thesis using assms g gp k Inl w2 by (simp add: stage_plan_violations_def)
    next
      case (Inr vs)
      then show ?thesis using assms g gp k w2 validate_empty_iff[of "aws_region w" db p]
        by (auto simp: stage_plan_violations_def)
    qed
  qed
qed

lemma ct_stage_with_record:
  assumes "stage_with_record ci db pid_opt w = (ev, w1)"
  shows "\<exists>k. w1 = w\<lparr>step := k\<rparr>"
    and "ComplianceType ev = COMPLIANT \<Longrightarrow>
           \<exists>p. p \<in> set (plans w) \<and> four_comparisons_equal (aws_region w) db p"
    and "pid_opt = Some pid \<Longrightarrow> \<not> faults w (step w) \<Longrightarrow> lookup_plan pid (plans w) = Some p
           \<Longrightarrow> dict_has db ''plan_id''
           \<Longrightarrow> ComplianceType ev
                 = (if four_comparisons_equal (aws_region w) db p then COMPLIANT else NON_COMPLIANT)"
proof -
  show "\<exists>k. w1 = w\<lparr>step := k\<rparr>"
  proof (cases pid_opt)
    case None
    then have "w1 = w" using assms by (auto simp: stage_with_record_def split: sum.splits)
    then show ?thesis by (intro exI[of _ "step w"]) simp
  next
    case (Some pid')
    obtain n w2 where v: "stage_plan_violations db pid' w = (n, w2)"
      by (cases "stage_plan_violations db pid' w")
    then have "w1 = w2" using assms Some by (simp add: stage_with_record_def)
    then show ?thesis using stage_plan_violations_result(1)[OF v] by blast
  qed
  show "\<exists>p. p \<in> set (plans w) \<and> four_comparisons_equal (aws_region w) db p"
    if c: "ComplianceType ev = COMPLIANT"
  proof (cases pid_opt)
    case None
    then show ?thesis using assms c by (auto simp: stage_with_record_def split: sum.splits)
  next
    case (Some pid')
    obtain n w2 where v: "stage_plan_violations db pid' w = (n, w2)"
      by (cases "stage_plan_violations db pid' w")
    then have "ev = result_from_violations ci n" using assms Some by (simp add: stage_with_record_def)
    then have "n = 0" using c by (simp add: ct_result_from_violations split: if_splits)
    then show ?thesis using stage_plan_violations_result(2)[OF v] lookup_plan_mem by blast
  qed
  show "ComplianceType ev
                 = (if four_comparisons_equal (aws_region w) db p then COMPLIANT else NON_COMPLIANT)"
    if h: "pid_opt = Some pid" "\<not> faults w (step w)" "lookup_plan pid (plans w) = Some p"
          "dict_has db ''plan_id''"
  proof -
    obtain n w2 where v: "stage_plan_violations db pid w = (n, w2)"
      by (cases "stage_plan_violations db pid w")
    then have "ev = result_from_violations ci n" using assms h(1) by (simp add: stage_with_record_def)
    then show ?thesis using stage_plan_violations_result(3)[OF v h(2,3,4)]
      by (simp add: ct_result_from_violations)
  qed
qed

lemma evaluate_stage_cases:
  assumes run: "evaluate_stage ci w = (ev, w')"
  shows "\<exists>k. w' = w\<lparr>step := k\<rparr>"
    and "\<not> fst (verify_stage_exists (resourceId ci) w) \<Longrightarrow> ComplianceType ev = NOT_APPLICABLE"
    and "ComplianceType ev = COMPLIANT \<Longrightarrow>
           \<exists>p db. p \<in> set (plans w) \<and> db \<in> set (table w)
                 \<and> four_comparisons_equal (aws_region w) db p"
    and "\<forall>n. \<not> faults w n \<Longrightarrow> fst (verify_stage_exists (resourceId ci) w)
           \<Longrightarrow> py_nth (split_on (CHR ''/'') (resourceId ci)) (- 3) = Inr a
           \<Longrightarrow> py_nth (split_on (CHR ''/'') (resourceId ci)) (- 1) = Inr s
           \<Longrightarrow> plan_id_for_stage a s (plans w) = Some pid
           \<Longrightarrow> lookup_plan pid (plans w) = Some p
           \<Longrightarrow> first_with_stage (resourceId ci) (table w) = Inr (Some db) \<Longrightarrow> db \<noteq> []
           \<Longrightarrow> ComplianceType ev
                 = (if four_comparisons_equal (aws_region w) db p then COMPLIANT else NON_COMPLIANT)"
proof -
  obtain b w1 where v: "verify_stage_exists (resourceId ci) w = (b, w1)"
    by (cases "verify_stage_exists (resourceId ci) w")
  note vr = verify_stage_exists_reads[OF v]
  from vr(1) obtain k1 where w1: "w1 = w\<lparr>step := k1\<rparr>" by blast
  have nb: "ev = result_for ci NOT_APPLICABLE ''Stage does not exist'' \<and> w' = w1" if "\<not> b"
    using that run v by (simp add: evaluate_stage_def)
  show "ComplianceType ev = NOT_APPLICABLE" if "\<not> fst (verify_stage_exists (resourceId ci) w)"
    using that v nb by simp
  {
    assume b: b
    from vr(2)[OF b] obtain a s where
      as: "py_nth (split_on (CHR ''/'') (resourceId ci)) (- 3) = Inr a"
          "py_nth (split_on (CHR ''/'') (resourceId ci)) (- 1) = Inr s"
      and w1': "w1 = w\<lparr>step := Suc (step w)\<rparr>"
      by blast
    obtain l w2 where l: "get_usage_plans w1 = (l, w2)" by (cases "get_usage_plans w1")
    note lr = get_usage_plans_result[OF l]
    have w2: "w2 = w\<lparr>step := Suc (Suc (step w))\<rparr>" using lr w1' by simp
    obtain f w3 where f: "find_usage_plan_for_stage (resourceId ci) w2 = (f, w3)"
      by (cases "find_usage_plan_for_stage (resourceId ci) w2")
    note fr = find_usage_plan_for_stage_reads[OF f]
    have w3: "w3 = w\<lparr>step := Suc (Suc (Suc (step w)))\<rparr>" using fr(1) w2 by simp
    have lfail: "ComplianceType ev = NON_COMPLIANT \<and> w' = w2" if "\<exists>e. l = Inl e"
      using that run v b as l by (auto simp: evaluate_stage_def)
    have norec: "ComplianceType ev = NON_COMPLIANT \<and> w' = w3"
      if "l = Inr ps" "f = None \<or> f = Some []" for ps
      using that run v b as l f by (auto simp: evaluate_stage_def)
    have withrec: "stage_with_record ci db (plan_id_for_stage a s ps) w3 = (ev, w')"
      if "l = Inr ps" "f = Some db" "db \<noteq> []" for ps db
      using that run v b as l f by (auto simp: evaluate_stage_def)
    have frame: "\<exists>k. w' = w\<lparr>step := k\<rparr>"
    proof (cases l)
      case (Inl e)
      then show ?thesis using lfail w2 by blast
    next
      case (Inr ps)
      show ?thesis
      proof (cases "f = None \<or> f = Some []")
        case True
        then show ?thesis using norec[OF Inr] w3 by blast
      next
        case False
        then obtain db where db: "f = Some db" "db \<noteq> []" by auto
        from ct_stage_with_record(1)[OF withrec[OF Inr db]] w3 show ?thesis by auto
      qed
    qed
    have compl: "\<exists>p db. p \<in> set (plans w) \<and> db \<in> set (table w)
                 \<and> four_comparisons_equal (aws_region w) db p"
      if c: "ComplianceType ev = COMPLIANT"
    proof (cases l)
      case (Inl e)
      then show ?thesis using lfail c by auto
    next
      case (Inr ps)
      show ?thesis
      proof (cases "f = None \<or> f = Some []")
        case True
        then show ?thesis using norec[OF Inr] c by auto
      next
        case False
        then obtain db where db: "f = Some db" "db \<noteq> []" by auto
        have "db \<in> set (table w)" using fr(2)[OF db(1)] w2 by simp
        moreover from ct_stage_with_record(2)[OF withrec[OF Inr db] c] w3
        have "\<exists>p. p \<in> set (plans w) \<and> four_comparisons_equal (aws_region w) db p" by simp
        ultimately show ?thesis by blast
      qed
    qed
    have exact: "ComplianceType ev
                 = (if four_comparisons_equal (aws_region w) db p then COMPLIANT else NON_COMPLIANT)"
      if nf: "\<forall>n. \<not> faults w n"
        and as': "py_nth (split_on (CHR ''/'') (resourceId ci)) (- 3) = Inr a'"
           "py_nth (split_on (CHR ''/'') (resourceId ci)) (- 1) = Inr s'"
        and pid: "plan_id_for_stage a' s' (plans w) = Some pid"
        and lp: "lookup_plan pid (plans w) = Some p"
        and fw: "first_with_stage (resourceId ci) (table w) = Inr (Some db)" and ne: "db \<noteq> []"
      for a' s' pid p db
    proof -
      have eq: "a' = a" "s' = s" using as as' by simp_all
      have l': "l = Inr (plans w)" using lr nf w1' by simp
      have f': "f = Some db" using fr(3)[of "Some db"] nf fw w2 by simp
      have dh: "dict_has db ''plan_id''" using fr(2)[OF f'] by simp
      from ct_stage_with_record(3)[OF withrec[OF l' f' ne], of pid p] pid lp dh nf w3 eq
      show ?thesis by simp
    qed
    note frame compl exact
  }
  note yes = this
  show "\<exists>k. w' = w\<lparr>step := k\<rparr>"
  proof (cases b)
    case True
    then show ?thesis by (rule yes(1))
  next
    case False
    then show ?thesis using nb w1 by blast
  qed
  show "\<exists>p db. p \<in> set (plans w) \<and> db \<in> set (table w)
                 \<and> four_comparisons_equal (aws_region w) db p"
    if "ComplianceType ev = COMPLIANT"
  proof (cases b)
    case True
    then show ?thesis using yes(2) that by blast
  next
    case False
    then show ?thesis using nb that by simp
  qed
  show "ComplianceType ev
                 = (if four_comparisons_equal (aws_region w) db p then COMPLIANT else NON_COMPLIANT)"
    if "\<forall>n. \<not> faults w n" "fst (verify_stage_exists (resourceId ci) w)"
      "py_nth (split_on (CHR ''/'') (resourceId ci)) (- 3) = Inr a"
      "py_nth (split_on (CHR ''/'') (resourceId ci)) (- 1) = Inr s"
      "plan_id_for_stage a s (plans w) = Some pid"
      "lookup_plan pid (plans w) = Some p"
      "first_with_stage (resourceId ci) (table w) = Inr (Some db)" "db \<noteq> []"
  proof -
    have b using that(2) v by simp
    from yes(3)[OF this that(1,3,4,5,6,7,8)] show ?thesis .
  qed
qed

lemma evaluate_usage_plan_compliant:
  assumes run: "evaluate_usage_plan ci w = (ev, w')"
    and c: "ComplianceType ev = COMPLIANT"
  shows "\<exists>p db. p \<in> set (plans w) \<and> db \<in> set (table w)
               \<and> four_comparisons_equal (aws_region w) db p"
proof -
  note C = evaluate_usage_plan_cases[OF run]
  have "\<not> (faults w (step w) \<or> lookup_plan (resourceId ci) (plans w) = None)"
    using C(2) c by auto
  then obtain p where p: "\<not> faults w (step w)" "lookup_plan (resourceId ci) (plans w) = Some p"
    by auto
  have pm: "p \<in> set (plans w)" using lookup_plan_mem[OF p(2)] by simp
  have nf1: "\<not> faults w (Suc (step w))" using C(3)[OF p] c by auto
  show ?thesis
  proof (cases "lookup_item (ap_name p) (table w)")
    case (Some db)
    then have "four_comparisons_equal (aws_region w) db p"
      using C(4)[OF p nf1 Some] c by (auto split: if_splits)
    then show ?thesis using pm lookup_item_mem[OF Some] by blast
  next
    case None
    have nf2: "\<not> faults w (Suc (Suc (step w)))" using C(5)[OF p nf1 None] c by auto
    show ?thesis
    proof (cases "first_item_by_settings (table w) p")
      case (Inl e)
      then show ?thesis using C(6)[OF p nf1 None nf2 Inl] c by simp
    next
      case (Inr m)
      show ?thesis
      proof (cases "m = None \<or> m = Some []")
        case True
        then show ?thesis using C(8)[OF p nf1 None nf2] Inr c by auto
      next
        case False
        then obtain db where db: "m = Some db" "db \<noteq> []" by auto
        then have "four_comparisons_equal (aws_region w) db p"
          using C(7)[OF p nf1 None nf2 _ db(2), of ] Inr c by (auto split: if_splits)
        moreover have "db \<in> set (table w)"
          using first_item_by_settings_some[of "table w" p db] Inr db by simp
        ultimately show ?thesis using pm by blast
      qed
    qed
  qed
qed

text \<open>
  C4 (as the code has it). The drift detector reports no violation exactly when the four
  comparisons (rate limit, burst limit, quota limit, set of stages) are equal. An
  evaluation is \<open>COMPLIANT\<close> only for a live plan and a governance record whose four
  comparisons are equal; for the pair that the rule compares (the plan and the record
  under its name; the plan listing the stage and the record naming it) the answer is
  \<open>COMPLIANT\<close> when the four are equal and \<open>NON_COMPLIANT\<close> when any differs. The
  answer is \<open>NOT_APPLICABLE\<close> when the resource type is not supported and when a stage
  does not exist; a usage plan that does not exist in the gateway is \<open>NON_COMPLIANT\<close>.
\<close>

theorem drift_classification:
  assumes run: "evaluate_item ci w = (ev, w')"
  shows "(\<forall>r db p. validate_plan_configuration r db p = Inr [] \<longleftrightarrow> four_comparisons_equal r db p)
       \<and> (ComplianceType ev = COMPLIANT \<longrightarrow>
            (\<exists>p db. p \<in> set (plans w) \<and> db \<in> set (table w)
                   \<and> four_comparisons_equal (aws_region w) db p))
       \<and> (\<forall>p db. resourceType ci = ''AWS::ApiGateway::UsagePlan''
              \<and> \<not> faults w (step w) \<and> \<not> faults w (Suc (step w))
              \<and> lookup_plan (resourceId ci) (plans w) = Some p
              \<and> lookup_item (ap_name p) (table w) = Some db
            \<longrightarrow> ComplianceType ev
                  = (if four_comparisons_equal (aws_region w) db p then COMPLIANT
                     else NON_COMPLIANT))
       \<and> (\<forall>a s pid p db. resourceType ci = ''AWS::ApiGateway::Stage''
              \<and> (\<forall>n. \<not> faults w n) \<and> fst (verify_stage_exists (resourceId ci) w)
              \<and> py_nth (split_on (CHR ''/'') (resourceId ci)) (- 3) = Inr a
              \<and> py_nth (split_on (CHR ''/'') (resourceId ci)) (- 1) = Inr s
              \<and> plan_id_for_stage a s (plans w) = Some pid
              \<and> lookup_plan pid (plans w) = Some p
              \<and> first_with_stage (resourceId ci) (table w) = Inr (Some db) \<and> db \<noteq> []
            \<longrightarrow> ComplianceType ev
                  = (if four_comparisons_equal (aws_region w) db p then COMPLIANT
                     else NON_COMPLIANT))
       \<and> (resourceType ci \<noteq> ''AWS::ApiGateway::Stage''
            \<and> resourceType ci \<noteq> ''AWS::ApiGateway::UsagePlan''
            \<longrightarrow> ComplianceType ev = NOT_APPLICABLE)
       \<and> (resourceType ci = ''AWS::ApiGateway::Stage''
            \<and> \<not> fst (verify_stage_exists (resourceId ci) w)
            \<longrightarrow> ComplianceType ev = NOT_APPLICABLE)
       \<and> (resourceType ci = ''AWS::ApiGateway::UsagePlan''
            \<and> lookup_plan (resourceId ci) (plans w) = None
            \<longrightarrow> ComplianceType ev = NON_COMPLIANT)"
proof -
  have c0: "\<forall>r db p. validate_plan_configuration r db p = Inr [] \<longleftrightarrow> four_comparisons_equal r db p"
    using validate_empty_iff by blast
  have st: "evaluate_stage ci w = (ev, w')" if "resourceType ci = ''AWS::ApiGateway::Stage''"
    using that run by (simp add: evaluate_item_def evaluate_resource_compliance_def)
  have up: "evaluate_usage_plan ci w = (ev, w')" if "resourceType ci = ''AWS::ApiGateway::UsagePlan''"
    using that run by (simp add: evaluate_item_def evaluate_resource_compliance_def)
  have ot: "ev = not_supported ci"
    if "resourceType ci \<noteq> ''AWS::ApiGateway::Stage''"
       "resourceType ci \<noteq> ''AWS::ApiGateway::UsagePlan''"
    using that run by (simp add: evaluate_item_def)
  have c1: "ComplianceType ev = COMPLIANT \<longrightarrow>
            (\<exists>p db. p \<in> set (plans w) \<and> db \<in> set (table w)
                   \<and> four_comparisons_equal (aws_region w) db p)"
  proof
    assume c: "ComplianceType ev = COMPLIANT"
    consider (s) "resourceType ci = ''AWS::ApiGateway::Stage''"
      | (u) "resourceType ci = ''AWS::ApiGateway::UsagePlan''"
      | (o) "resourceType ci \<noteq> ''AWS::ApiGateway::Stage''"
            "resourceType ci \<noteq> ''AWS::ApiGateway::UsagePlan''"
      by blast
    then show "\<exists>p db. p \<in> set (plans w) \<and> db \<in> set (table w)
                   \<and> four_comparisons_equal (aws_region w) db p"
    proof cases
      case s
      then show ?thesis using evaluate_stage_cases(3)[OF st c] by simp
    next
      case u
      then show ?thesis using evaluate_usage_plan_compliant[OF up c] by simp
    next
      case o
      then show ?thesis using ot c by (simp add: not_supported_def)
    qed
  qed
  have c2: "\<forall>p db. resourceType ci = ''AWS::ApiGateway::UsagePlan''
              \<and> \<not> faults w (step w) \<and> \<not> faults w (Suc (step w))
              \<and> lookup_plan (resourceId ci) (plans w) = Some p
              \<and> lookup_item (ap_name p) (table w) = Some db
            \<longrightarrow> ComplianceType ev
                  = (if four_comparisons_equal (aws_region w) db p then COMPLIANT
                     else NON_COMPLIANT)"
    using evaluate_usage_plan_cases(4)[OF up] by blast
  have c3: "\<forall>a s pid p db. resourceType ci = ''AWS::ApiGateway::Stage''
              \<and> (\<forall>n. \<not> faults w n) \<and> fst (verify_stage_exists (resourceId ci) w)
              \<and> py_nth (split_on (CHR ''/'') (resourceId ci)) (- 3) = Inr a
              \<and> py_nth (split_on (CHR ''/'') (resourceId ci)) (- 1) = Inr s
              \<and> plan_id_for_stage a s (plans w) = Some pid
              \<and> lookup_plan pid (plans w) = Some p
              \<and> first_with_stage (resourceId ci) (table w) = Inr (Some db) \<and> db \<noteq> []
            \<longrightarrow> ComplianceType ev
                  = (if four_comparisons_equal (aws_region w) db p then COMPLIANT
                     else NON_COMPLIANT)"
  proof (intro allI impI, elim conjE)
    fix a s pid p db
    assume h: "resourceType ci = ''AWS::ApiGateway::Stage''" "\<forall>n. \<not> faults w n"
      "fst (verify_stage_exists (resourceId ci) w)"
      "py_nth (split_on (CHR ''/'') (resourceId ci)) (- 3) = Inr a"
      "py_nth (split_on (CHR ''/'') (resourceId ci)) (- 1) = Inr s"
      "plan_id_for_stage a s (plans w) = Some pid"
      "lookup_plan pid (plans w) = Some p"
      "first_with_stage (resourceId ci) (table w) = Inr (Some db)" "db \<noteq> []"
    show "ComplianceType ev
                  = (if four_comparisons_equal (aws_region w) db p then COMPLIANT
                     else NON_COMPLIANT)"
      by (rule evaluate_stage_cases(4)[OF st[OF h(1)] h(2-9)])
  qed
  have c4: "resourceType ci \<noteq> ''AWS::ApiGateway::Stage''
            \<and> resourceType ci \<noteq> ''AWS::ApiGateway::UsagePlan''
            \<longrightarrow> ComplianceType ev = NOT_APPLICABLE"
    using ot by (auto simp: not_supported_def)
  have c5: "resourceType ci = ''AWS::ApiGateway::Stage''
            \<and> \<not> fst (verify_stage_exists (resourceId ci) w)
            \<longrightarrow> ComplianceType ev = NOT_APPLICABLE"
    using evaluate_stage_cases(2)[OF st] by blast
  have c6: "resourceType ci = ''AWS::ApiGateway::UsagePlan''
            \<and> lookup_plan (resourceId ci) (plans w) = None
            \<longrightarrow> ComplianceType ev = NON_COMPLIANT"
    using evaluate_usage_plan_cases(2)[OF up] by blast
  show ?thesis
    by (intro conjI) (rule c0, rule c1, rule c2, rule c3, rule c4, rule c5, rule c6)
qed

theorem drift_classification_witness:
  "ComplianceType (fst (evaluate_item (usage_plan_item ''p1'')
       (governed_world [named_record] [plan_with ''p1'' ''Basic Tier'' 50 100 10000] (\<lambda>n. False))))
     = COMPLIANT
   \<and> four_comparisons_equal (Some ''us-east-1'') named_record
        (plan_with ''p1'' ''Basic Tier'' 50 100 10000)
   \<and> ComplianceType (fst (evaluate_item (usage_plan_item ''p1'')
       (governed_world [named_record] [plan_with ''p1'' ''Basic Tier'' 25 100 10000] (\<lambda>n. False))))
     = NON_COMPLIANT
   \<and> ComplianceType (fst (evaluate_item (stage_item dev_arn)
       (governed_world [basic_record] [staged_plan] (\<lambda>n. False))))
     = COMPLIANT
   \<and> ComplianceType (fst (evaluate_item bucket_item
       (governed_world [basic_record] [staged_plan] (\<lambda>n. False))))
     = NOT_APPLICABLE
   \<and> ComplianceType (fst (evaluate_item (stage_item gone_arn)
       (governed_world [basic_record] [staged_plan] (\<lambda>n. False))))
     = NOT_APPLICABLE
   \<and> ComplianceType (fst (evaluate_item (usage_plan_item ''gone'')
       (governed_world [basic_record] [staged_plan] (\<lambda>n. False))))
     = NON_COMPLIANT"
proof -
  note c2 = conjunct2
  let ?P = "plan_with ''p1'' ''Basic Tier'' 50 100 10000"
  let ?D = "plan_with ''p1'' ''Basic Tier'' 25 100 10000"
  let ?W1 = "governed_world [named_record] [?P] (\<lambda>n. False)"
  let ?W2 = "governed_world [named_record] [?D] (\<lambda>n. False)"
  let ?W3 = "governed_world [basic_record] [staged_plan] (\<lambda>n. False)"
  have h1: "resourceType (usage_plan_item ''p1'') = ''AWS::ApiGateway::UsagePlan''
       \<and> \<not> faults ?W1 (step ?W1) \<and> \<not> faults ?W1 (Suc (step ?W1))
       \<and> lookup_plan (resourceId (usage_plan_item ''p1'')) (plans ?W1) = Some ?P
       \<and> lookup_item (ap_name ?P) (table ?W1) = Some named_record"
    by code_simp
  have e1: "four_comparisons_equal (aws_region ?W1) named_record ?P"
    by code_simp
  have r1: "ComplianceType (fst (evaluate_item (usage_plan_item ''p1'') ?W1)) = COMPLIANT"
    using drift_classification[where ci="usage_plan_item ''p1''" and w="?W1",
            OF prod.collapse[symmetric], THEN c2, THEN c2, THEN conjunct1, rule_format, OF h1] e1
    by simp
  have e1': "four_comparisons_equal (Some ''us-east-1'') named_record ?P"
    by code_simp
  have h2: "resourceType (usage_plan_item ''p1'') = ''AWS::ApiGateway::UsagePlan''
       \<and> \<not> faults ?W2 (step ?W2) \<and> \<not> faults ?W2 (Suc (step ?W2))
       \<and> lookup_plan (resourceId (usage_plan_item ''p1'')) (plans ?W2) = Some ?D
       \<and> lookup_item (ap_name ?D) (table ?W2) = Some named_record"
    by code_simp
  have e2: "\<not> four_comparisons_equal (aws_region ?W2) named_record ?D"
    by code_simp
  have r2: "ComplianceType (fst (evaluate_item (usage_plan_item ''p1'') ?W2)) = NON_COMPLIANT"
    using drift_classification[where ci="usage_plan_item ''p1''" and w="?W2",
            OF prod.collapse[symmetric], THEN c2, THEN c2, THEN conjunct1, rule_format, OF h2] e2
    by simp
  have f3: "\<forall>n. \<not> faults ?W3 n"
    by (simp add: governed_world_def)
  have h3: "resourceType (stage_item dev_arn) = ''AWS::ApiGateway::Stage''
       \<and> fst (verify_stage_exists (resourceId (stage_item dev_arn)) ?W3)
       \<and> py_nth (split_on (CHR ''/'') (resourceId (stage_item dev_arn))) (- 3) = Inr ''api1''
       \<and> py_nth (split_on (CHR ''/'') (resourceId (stage_item dev_arn))) (- 1) = Inr ''dev''
       \<and> plan_id_for_stage ''api1'' ''dev'' (plans ?W3) = Some ''p9''
       \<and> lookup_plan ''p9'' (plans ?W3) = Some staged_plan
       \<and> first_with_stage (resourceId (stage_item dev_arn)) (table ?W3) = Inr (Some basic_record)
       \<and> basic_record \<noteq> []"
    by code_simp
  have e3: "four_comparisons_equal (aws_region ?W3) basic_record staged_plan"
    by code_simp
  have r3: "ComplianceType (fst (evaluate_item (stage_item dev_arn) ?W3)) = COMPLIANT"
    using drift_classification[where ci="stage_item dev_arn" and w="?W3",
            OF prod.collapse[symmetric], THEN c2, THEN c2, THEN c2, THEN conjunct1, rule_format,
            of "''api1''" "''dev''" "''p9''" staged_plan basic_record] f3 h3 e3
    by simp
  have h4: "resourceType bucket_item \<noteq> ''AWS::ApiGateway::Stage''
            \<and> resourceType bucket_item \<noteq> ''AWS::ApiGateway::UsagePlan''"
    by code_simp
  have r4: "ComplianceType (fst (evaluate_item bucket_item ?W3)) = NOT_APPLICABLE"
    using drift_classification[where ci="bucket_item" and w="?W3",
            OF prod.collapse[symmetric], THEN c2, THEN c2, THEN c2, THEN c2, THEN conjunct1,
            rule_format, OF h4] .
  have h5: "resourceType (stage_item gone_arn) = ''AWS::ApiGateway::Stage''
            \<and> \<not> fst (verify_stage_exists (resourceId (stage_item gone_arn)) ?W3)"
    by code_simp
  have r5: "ComplianceType (fst (evaluate_item (stage_item gone_arn) ?W3)) = NOT_APPLICABLE"
    using drift_classification[where ci="stage_item gone_arn" and w="?W3",
            OF prod.collapse[symmetric], THEN c2, THEN c2, THEN c2, THEN c2, THEN c2,
            THEN conjunct1, rule_format, OF h5] .
  have h6: "resourceType (usage_plan_item ''gone'') = ''AWS::ApiGateway::UsagePlan''
            \<and> lookup_plan (resourceId (usage_plan_item ''gone'')) (plans ?W3) = None"
    by code_simp
  have r6: "ComplianceType (fst (evaluate_item (usage_plan_item ''gone'') ?W3)) = NON_COMPLIANT"
    using drift_classification[where ci="usage_plan_item ''gone''" and w="?W3",
            OF prod.collapse[symmetric], THEN c2, THEN c2, THEN c2, THEN c2, THEN c2,
            THEN c2, rule_format, OF h6] .
  show ?thesis using r1 e1' r2 r3 r4 r5 r6 by simp
qed

text \<open>
  C4 as stated fails in its last part: a usage plan that does not exist in the gateway
  is classified \<open>NON_COMPLIANT\<close>, not \<open>NOT_APPLICABLE\<close>.
\<close>

theorem missing_usage_plan_counterexample:
  "lookup_plan ''gone'' (plans (governed_world [basic_record] [staged_plan] (\<lambda>n. False))) = None
   \<and> map_sum id (\<lambda>resp. case body resp of EvaluationCompleted ev \<Rightarrow> Some (ComplianceType ev)
                                           | _ \<Rightarrow> None)
        (fst (compliance_lambda_handler (Some (usage_plan_item ''gone''))
                (governed_world [basic_record] [staged_plan] (\<lambda>n. False))))
       = Inr (Some NON_COMPLIANT)
   \<and> ComplianceType (fst (evaluate_item (usage_plan_item ''gone'')
         (governed_world [basic_record] [staged_plan] (\<lambda>n. False)))) \<noteq> NOT_APPLICABLE"
  by code_simp


































end
